theory Spec2Isabelle
  imports Main "HOL-Library.Sublist"
begin

section \<open>Python strings\<close>

text \<open>
  A Python \<open>str\<close> is modelled as a \<open>string\<close> whose characters are the code points
  below 256. \<open>lower\<close> is \<open>str.lower\<close> on that range: the letters A-Z and the Latin-1
  capitals (192-222 without the multiplication sign 215) move up by 32, every other
  character stays.
\<close>

definition lower_char :: "char \<Rightarrow> char" where
  "lower_char c =
     (let n = (of_char c :: nat)
      in if (65 \<le> n \<and> n \<le> 90) \<or> (192 \<le> n \<and> n \<le> 222 \<and> n \<noteq> 215)
         then char_of (n + 32) else c)"

definition lower :: "string \<Rightarrow> string" where
  "lower s = map lower_char s"

text \<open>\<open>py_in k s\<close> is Python's \<open>k in s\<close> on strings: \<open>k\<close> occurs in \<open>s\<close> as a substring.\<close>

fun py_in :: "string \<Rightarrow> string \<Rightarrow> bool" where
  "py_in k [] = (k = [])"
| "py_in k (c # s) = (prefix k (c # s) \<or> py_in k s)"

text \<open>\<open>str_nat\<close> and \<open>str_int\<close> are the decimal formatting of an f-string field.\<close>

definition digit_char :: "nat \<Rightarrow> char" where
  "digit_char d = char_of (48 + d)"

fun str_nat :: "nat \<Rightarrow> string" where
  "str_nat n = (if n < 10 then [digit_char n] else str_nat (n div 10) @ [digit_char (n mod 10)])"

declare str_nat.simps [simp del]

definition str_int :: "int \<Rightarrow> string" where
  "str_int i = (if i < 0 then CHR ''-'' # str_nat (nat (- i)) else str_nat (nat i))"

section \<open>The tech stack (enhanced\_tech\_detection.py)\<close>

text \<open>
  The dictionaries built by the detectors have fixed keys, so they are records. Keys that
  occur in more than one dictionary carry a prefix: \<open>srv_\<close> for the \<open>server\<close> dictionary,
  \<open>wp_\<close> for \<open>wordpress\<close>, \<open>cms_\<close> for \<open>other_cms\<close>. A JSON value of the scanner's
  output is a \<open>json\<close>; \<open>JNum\<close> stands for every number.
\<close>

datatype json = JNull | JBool bool | JNum int | JStr string
  | JArr "json list" | JObj "(string \<times> json) list"

record server_info =
  srv_server :: "string option"
  srv_version :: "string option"
  srv_outdated :: bool
  srv_framework :: "string option"
  srv_powered_by :: "string option"
  srv_security_headers :: "(string \<times> string) list"

record vulnerable_plugin =
  vp_name :: string
  vp_version :: json
  vp_vulnerabilities :: nat

record wordpress_info =
  wp_is_wordpress :: bool
  wp_version :: json
  wp_plugins :: "string list"
  wp_vulnerable_plugins :: "vulnerable_plugin list"
  wp_themes :: "string list"
  wp_vulnerabilities :: nat
  wp_outdated_core :: bool

record other_cms_info =
  cms_type :: "string option"
  cms_version :: "string option"
  cms_outdated :: bool

record TechStack =
  server :: server_info
  wordpress :: wordpress_info
  other_cms :: other_cms_info
  scan_timestamp :: string

record SalesSignals =
  has_outdated_server :: bool
  has_outdated_cms :: bool
  has_vulnerable_plugins :: bool
  has_poor_security :: bool
  opportunity_score :: int
  pain_points :: "string list"

section \<open>The viability scorer\<close>

subsection \<open>The exclusion keywords (sales\_viability\_filter.py)\<close>

definition EXCLUDE_KEYWORDS :: "string list" where
  "EXCLUDE_KEYWORDS =
     [''verizon'', ''at&t'', ''tmobile'', ''t-mobile'',
      ''google'', ''amazon'', ''microsoft'', ''apple'', ''facebook'', ''meta'',
      ''dell'', ''hp'', ''lenovo'', ''cisco'', ''ibm'',
      ''fortune 500'', ''multinational'', ''nasdaq'', ''nyse'',
      ''bank'', ''bank of'', ''capital one'', ''chase'', ''wells fargo'',
      ''mcdonalds'', ''walmart'', ''target'', ''costco'', ''target'',
      ''federal'', ''government'', ''military'', ''defense'',
      ''tesla'', ''uber'', ''lyft'', ''airbnb'']"

subsection \<open>The scoring block of run\_crawl (crawl\_verified.py)\<close>

text \<open>
  The \<open>for keyword ... break\<close> loop over the keywords, on the triple
  (score, recommendation, reasons) it assigns.
\<close>

fun exclusion_loop ::
  "string list \<Rightarrow> string \<Rightarrow> int \<times> string \<times> string list \<Rightarrow> int \<times> string \<times> string list" where
  "exclusion_loop [] company_lower acc = acc"
| "exclusion_loop (keyword # rest) company_lower acc =
     (if py_in keyword company_lower
      then (0, ''EXCLUDE'', [''Matches exclusion keyword: '' @ keyword])
      else exclusion_loop rest company_lower acc)"

definition run_crawl_score :: "string \<Rightarrow> TechStack \<Rightarrow> int \<times> string \<times> string list" where
  "run_crawl_score name tech_stack =
     (let (score, recommendation, reasons) =
            exclusion_loop EXCLUDE_KEYWORDS (lower name) (50, ''MAYBE'', [])
      in if recommendation \<noteq> ''EXCLUDE'' then
           let (score, reasons) =
                 (if wp_is_wordpress (wordpress tech_stack)
                  then (score + 20, reasons @ [''WordPress detected''])
                  else (score, reasons));
               (score, reasons) =
                 (case srv_server (server tech_stack) of
                    None \<Rightarrow> (score, reasons)
                  | Some detected \<Rightarrow>
                      if detected \<noteq> [] then (score + 15, reasons @ [''Server: '' @ detected])
                      else (score, reasons));
               vulnerable_count = length (wp_vulnerable_plugins (wordpress tech_stack));
               (score, reasons) =
                 (if vulnerable_count > 0
                  then (score + 25, reasons @ [str_nat vulnerable_count @ '' vulnerable plugins''])
                  else (score, reasons));
               (score, reasons) =
                 (if wp_outdated_core (wordpress tech_stack)
                  then (score + 15, reasons @ [''Outdated WordPress''])
                  else (score, reasons));
               security_headers = length (srv_security_headers (server tech_stack));
               (score, reasons) =
                 (if security_headers = 0
                  then (score + 10, reasons @ [''Missing security headers''])
                  else (score, reasons));
               score = min score 100;
               recommendation =
                 (if score \<ge> 70 then ''CONTACT''
                  else if score \<ge> 50 then ''MAYBE''
                  else ''EXCLUDE'')
           in (score, recommendation, reasons)
         else (score, recommendation, reasons))"

text \<open>
  The branch \<open>if recommendation != "EXCLUDE":\<close> of that block on its own (lines 165 to
  195), as a function of the values the variables \<open>score\<close> and \<open>reasons\<close> have when it is
  entered. In \<open>run_crawl\<close> it is entered with 50 and the empty list.
\<close>

definition run_crawl_tech_block ::
  "int \<Rightarrow> string list \<Rightarrow> TechStack \<Rightarrow> int \<times> string \<times> string list" where
  "run_crawl_tech_block score reasons tech_stack =
     (let (score, reasons) =
            (if wp_is_wordpress (wordpress tech_stack)
             then (score + 20, reasons @ [''WordPress detected''])
             else (score, reasons));
          (score, reasons) =
            (case srv_server (server tech_stack) of
               None \<Rightarrow> (score, reasons)
             | Some detected \<Rightarrow>
                 if detected \<noteq> [] then (score + 15, reasons @ [''Server: '' @ detected])
                 else (score, reasons));
          vulnerable_count = length (wp_vulnerable_plugins (wordpress tech_stack));
          (score, reasons) =
            (if vulnerable_count > 0
             then (score + 25, reasons @ [str_nat vulnerable_count @ '' vulnerable plugins''])
             else (score, reasons));
          (score, reasons) =
            (if wp_outdated_core (wordpress tech_stack)
             then (score + 15, reasons @ [''Outdated WordPress''])
             else (score, reasons));
          security_headers = length (srv_security_headers (server tech_stack));
          (score, reasons) =
            (if security_headers = 0
             then (score + 10, reasons @ [''Missing security headers''])
             else (score, reasons));
          score = min score 100;
          recommendation =
            (if score \<ge> 70 then ''CONTACT''
             else if score \<ge> 50 then ''MAYBE''
             else ''EXCLUDE'')
      in (score, recommendation, reasons))"

subsection \<open>The scoring block of main (verified\_unlimited\_crawl.py)\<close>

definition main_score :: "string \<Rightarrow> TechStack \<Rightarrow> int \<times> string \<times> string list" where
  "main_score name tech_stack =
     (let (score, recommendation, reasons) =
            exclusion_loop EXCLUDE_KEYWORDS (lower name) (50, ''MAYBE'', [])
      in if recommendation \<noteq> ''EXCLUDE'' then
           let (score, reasons) =
                 (if wp_is_wordpress (wordpress tech_stack)
                  then (score + 20, reasons @ [''WordPress detected''])
                  else (score, reasons));
               (score, reasons) =
                 (case srv_server (server tech_stack) of
                    None \<Rightarrow> (score, reasons)
                  | Some detected \<Rightarrow>
                      if detected \<noteq> [] then (score + 15, reasons @ [''Server detected: '' @ detected])
                      else (score, reasons));
               vulnerable_count = length (wp_vulnerable_plugins (wordpress tech_stack));
               (score, reasons) =
                 (if vulnerable_count > 0
                  then (score + 25, reasons @ [str_nat vulnerable_count @ '' vulnerable plugins''])
                  else (score, reasons));
               (score, reasons) =
                 (if wp_outdated_core (wordpress tech_stack)
                  then (score + 15, reasons @ [''Outdated WordPress core''])
                  else (score, reasons));
               security_headers = length (srv_security_headers (server tech_stack));
               (score, reasons) =
                 (if security_headers = 0
                  then (score + 10, reasons @ [''Missing security headers''])
                  else (score, reasons));
               score = min score 100;
               recommendation =
                 (if score \<ge> 70 then ''CONTACT''
                  else if score \<ge> 50 then ''MAYBE''
                  else ''EXCLUDE'')
           in (score, recommendation, reasons)
         else (score, recommendation, reasons))"

subsection \<open>The LLM-assisted scorer and its fallback (sales\_viability\_filter.py)\<close>

text \<open>
  \<open>assess_sales_fit\<close> returns either what the script computed (\<open>Scored\<close>: an integer, a
  recommendation and the reasons) or the three values read from the LLM's JSON answer,
  whatever their types (\<open>LLM_Assessment\<close>).
\<close>

datatype sales_fit = Scored int string "string list" | LLM_Assessment json json json

text \<open>
  The subprocess and the JSON parser are outside the repository. \<open>gemini\<close> is the outcome
  of \<open>subprocess.run(['gemini'], input=context, ...)\<close>, as a function of the values the
  context string is built from; \<open>json_loads\<close> is \<open>json.loads\<close>, \<open>None\<close> where it raises.
\<close>

datatype proc_outcome = Proc_Raised | Proc_Done int string

record llm_env =
  gemini :: "string \<Rightarrow> string \<Rightarrow> string \<Rightarrow> int \<Rightarrow> TechStack \<Rightarrow> SalesSignals \<Rightarrow> proc_outcome"
  json_loads :: "string \<Rightarrow> json option"

definition heuristic_score ::
  "string \<Rightarrow> string \<Rightarrow> string \<Rightarrow> int \<Rightarrow> TechStack \<Rightarrow> SalesSignals \<Rightarrow> int \<times> string \<times> string list" where
  "heuristic_score company_name location domain osint_findings tech_stack sales_signals =
     (let score = 50;
          reasons = [];
          (score, reasons) =
            (if location \<noteq> [] \<and> lower location \<notin> set [''online'', ''unknown'']
             then (score + 10, reasons @ [''Local company: '' @ location])
             else (score - 20, reasons @ [''No clear local presence'']));
          (score, reasons) =
            (if osint_findings > 0
             then (score + min 20 osint_findings,
                   reasons @ [''Good OSINT data: '' @ str_int osint_findings @ '' findings''])
             else (score - 15, reasons @ [''Minimal OSINT data found'']));
          wp_data = wordpress tech_stack;
          (score, reasons) =
            (if wp_is_wordpress wp_data then
               let score = score + 15;
                   reasons = reasons @ [''Uses WordPress - common platform''];
                   (score, reasons) =
                     (if wp_vulnerable_plugins wp_data \<noteq> []
                      then (score + 20,
                            reasons @ [str_nat (length (wp_vulnerable_plugins wp_data))
                                       @ '' vulnerable plugins''])
                      else (score, reasons));
                   (score, reasons) =
                     (if wp_outdated_core wp_data
                      then (score + 15, reasons @ [''Outdated WordPress - needs attention''])
                      else (score, reasons))
               in (score, reasons)
             else (score, reasons));
          (score, reasons) =
            (if has_poor_security sales_signals
             then (score + 10, reasons @ [''Poor security posture - opportunity''])
             else (score, reasons));
          (score, reasons) =
            (if has_outdated_server sales_signals
             then (score + 5, reasons @ [''Outdated server software''])
             else (score, reasons));
          score = score + opportunity_score sales_signals;
          recommendation =
            (if score \<ge> 70 then ''CONTACT''
             else if score \<ge> 50 then ''MAYBE''
             else ''EXCLUDE'')
      in (score, recommendation, reasons))"

text \<open>The keyword loop of \<open>assess_sales_fit\<close>, which returns from inside the loop.\<close>

fun keyword_filter :: "string list \<Rightarrow> string \<Rightarrow> sales_fit option" where
  "keyword_filter [] company_lower = None"
| "keyword_filter (keyword # rest) company_lower =
     (if py_in keyword company_lower
      then Some (Scored 0 ''EXCLUDE'' [''Matches exclusion keyword: '' @ keyword])
      else keyword_filter rest company_lower)"

text \<open>\<open>str.find\<close> and \<open>str.rfind\<close> of one character: the index, or \<open>-1\<close>.\<close>

fun py_find :: "char \<Rightarrow> string \<Rightarrow> int" where
  "py_find c [] = - 1"
| "py_find c (x # xs) = (if x = c then 0 else (let i = py_find c xs in if i < 0 then - 1 else i + 1))"

definition py_rfind :: "char \<Rightarrow> string \<Rightarrow> int" where
  "py_rfind c s = (let i = py_find c (rev s) in if i < 0 then - 1 else int (length s) - 1 - i)"

definition json_get :: "(string \<times> json) list \<Rightarrow> string \<Rightarrow> json \<Rightarrow> json" where
  "json_get kvs k d = (case map_of kvs k of None \<Rightarrow> d | Some v \<Rightarrow> v)"

definition assess_sales_fit ::
  "llm_env \<Rightarrow> string \<Rightarrow> string \<Rightarrow> string \<Rightarrow> int \<Rightarrow> TechStack \<Rightarrow> SalesSignals \<Rightarrow> sales_fit" where
  "assess_sales_fit env company_name location domain osint_findings tech_stack sales_signals =
     (case keyword_filter EXCLUDE_KEYWORDS (lower company_name) of
        Some excluded \<Rightarrow> excluded
      | None \<Rightarrow>
          (let fallback =
                 (case heuristic_score company_name location domain osint_findings
                         tech_stack sales_signals of
                    (score, recommendation, reasons) \<Rightarrow> Scored score recommendation reasons)
           in case gemini env company_name location domain osint_findings
                     tech_stack sales_signals of
                Proc_Raised \<Rightarrow> fallback
              | Proc_Done returncode response_text \<Rightarrow>
                  if returncode = 0 then
                    let json_start = py_find CHR ''{'' response_text;
                        json_end = py_rfind CHR ''}'' response_text + 1
                    in if json_start \<ge> 0 \<and> json_end > json_start then
                         (case json_loads env
                                 (drop (nat json_start) (take (nat json_end) response_text)) of
                            Some (JObj assessment) \<Rightarrow>
                              LLM_Assessment
                                (json_get assessment ''score'' (JNum 0))
                                (json_get assessment ''recommendation'' (JStr ''EXCLUDE''))
                                (json_get assessment ''reasons'' (JArr []))
                          | _ \<Rightarrow> fallback)
                       else fallback
                  else fallback))"

subsection \<open>Vocabulary of the scorer's properties\<close>

text \<open>
  \<open>first_match\<close> is the first keyword of the list, in list order, that occurs in the
  lower-cased name; \<open>matches_exclusion\<close> says that some keyword does. \<open>server_detected\<close> is
  the test the scoring blocks make on the \<open>server\<close> entry: a non-empty string.
\<close>

definition first_match :: "string \<Rightarrow> string option" where
  "first_match name = find (\<lambda>keyword. py_in keyword (lower name)) EXCLUDE_KEYWORDS"

definition matches_exclusion :: "string \<Rightarrow> bool" where
  "matches_exclusion name = list_ex (\<lambda>keyword. py_in keyword (lower name)) EXCLUDE_KEYWORDS"

definition server_detected :: "TechStack \<Rightarrow> bool" where
  "server_detected ts = (case srv_server (server ts) of None \<Rightarrow> False | Some s \<Rightarrow> s \<noteq> [])"

text \<open>\<open>tech_increments\<close> is the sum of the increments of the rules a tech stack triggers.\<close>

definition tech_increments :: "TechStack \<Rightarrow> int" where
  "tech_increments ts =
     (if wp_is_wordpress (wordpress ts) then 20 else 0)
     + (if server_detected ts then 15 else 0)
     + (if length (wp_vulnerable_plugins (wordpress ts)) > 0 then 25 else 0)
     + (if wp_outdated_core (wordpress ts) then 15 else 0)
     + (if length (srv_security_headers (server ts)) = 0 then 10 else 0)"


subsection \<open>Concrete inputs\<close>

text \<open>
  \<open>default_stack\<close> is the tech stack of a site on which every detector found nothing;
  \<open>default_signals\<close> are the signals \<open>extract_sales_signals\<close> gives for it (no security
  header, so poor security and 10 points). \<open>all_signals_stack\<close> triggers every rule of
  the scoring block. \<open>quiet_stack\<close> triggers none (one security header is present),
  \<open>wordpress_only_stack\<close> only the WordPress rule and \<open>server_only_stack\<close> only the server
  rule. \<open>llm_missing\<close> is a machine without the LLM tool; \<open>llm_answers\<close> is one
  whose tool answers with a score of 95.
\<close>

definition default_stack :: TechStack where
  "default_stack =
     \<lparr>server = \<lparr>srv_server = None, srv_version = None, srv_outdated = False,
                 srv_framework = None, srv_powered_by = None, srv_security_headers = []\<rparr>,
      wordpress = \<lparr>wp_is_wordpress = False, wp_version = JNull, wp_plugins = [],
                    wp_vulnerable_plugins = [], wp_themes = [], wp_vulnerabilities = 0,
                    wp_outdated_core = False\<rparr>,
      other_cms = \<lparr>cms_type = None, cms_version = None, cms_outdated = False\<rparr>,
      scan_timestamp = ''2024-01-01T00:00:00''\<rparr>"

definition default_signals :: SalesSignals where
  "default_signals =
     \<lparr>has_outdated_server = False, has_outdated_cms = False, has_vulnerable_plugins = False,
      has_poor_security = True, opportunity_score = 10,
      pain_points = [''Missing critical security headers'']\<rparr>"

definition all_signals_stack :: TechStack where
  "all_signals_stack =
     \<lparr>server = \<lparr>srv_server = Some ''Apache/2.2.15'', srv_version = Some ''2.2'',
                 srv_outdated = True, srv_framework = None, srv_powered_by = None,
                 srv_security_headers = []\<rparr>,
      wordpress = \<lparr>wp_is_wordpress = True, wp_version = JStr ''4.9.8'',
                    wp_plugins = [''contact-form-7''],
                    wp_vulnerable_plugins =
                      [\<lparr>vp_name = ''contact-form-7'', vp_version = JStr ''4.1'',
                        vp_vulnerabilities = 2\<rparr>],
                    wp_themes = [], wp_vulnerabilities = 1, wp_outdated_core = True\<rparr>,
      other_cms = \<lparr>cms_type = None, cms_version = None, cms_outdated = False\<rparr>,
      scan_timestamp = ''2024-01-01T00:00:00''\<rparr>"

definition quiet_stack :: TechStack where
  "quiet_stack =
     default_stack\<lparr>server := (server default_stack)
       \<lparr>srv_security_headers := [(''X-Frame-Options'', ''DENY'')]\<rparr>\<rparr>"

definition wordpress_only_stack :: TechStack where
  "wordpress_only_stack =
     quiet_stack\<lparr>wordpress := (wordpress quiet_stack)\<lparr>wp_is_wordpress := True\<rparr>\<rparr>"

definition server_only_stack :: TechStack where
  "server_only_stack =
     quiet_stack\<lparr>server := (server quiet_stack)\<lparr>srv_server := Some ''nginx''\<rparr>\<rparr>"


definition llm_answers :: llm_env where
  "llm_answers =
     \<lparr>gemini = (\<lambda>_ _ _ _ _ _. Proc_Done 0 ''{}''),
      json_loads = (\<lambda>_. Some (JObj [(''score'', JNum 95), (''recommendation'', JStr ''CONTACT'')]))\<rparr>"

section \<open>The domain verifier (domain\_verification.py)\<close>

subsection \<open>The network and the verifier's state\<close>

text \<open>
  The network is outside the program. A lookup or a request may answer differently each
  time it is made, so both take the number of network calls made before (the \<open>clock\<close>).
  \<open>urlparse\<close> gives the \<open>netloc\<close> and \<open>path\<close> components, \<open>None\<close> where it raises.
  A HEAD request answers with a status code and, if present, the \<open>Server\<close> header, or
  raises \<open>Timeout\<close>, \<open>ConnectionError\<close> or another exception.
\<close>

datatype http_outcome = Response int "string option" | Timeout | ConnectionError | OtherError

datatype dns_outcome = Resolved string | Gaierror | DnsError string

record network =
  urlparse :: "string \<Rightarrow> (string \<times> string) option"
  gethostbyname :: "nat \<Rightarrow> string \<Rightarrow> dns_outcome"
  requests_head :: "nat \<Rightarrow> string \<Rightarrow> http_outcome"

text \<open>
  What the program does to the outside is recorded in the \<open>world\<close>: the calls it made, in
  order (\<open>Resolve\<close> a DNS lookup, \<open>Head\<close> a HEAD request, \<open>Sleep\<close> a pause of 0.5 seconds).
\<close>

datatype event = Resolve string | Head string | Sleep

record world =
  clock :: nat
  trace :: "event list"

type_synonym http_result = "bool \<times> int option \<times> string"

record DomainVerifier =
  timeout :: int
  retries :: int
  cache :: "string \<rightharpoonup> http_result"

definition new_DomainVerifier :: DomainVerifier where
  "new_DomainVerifier = \<lparr>timeout = 5, retries = 2, cache = Map.empty\<rparr>"

record VerificationResult =
  verified :: bool
  vr_domain :: "string option"
  dns_valid :: bool
  dns_ip :: "string option"
  http_responds :: bool
  http_status :: "int option"
  vr_server :: "string option"
  error :: "string option"

definition do_resolve :: "network \<Rightarrow> string \<Rightarrow> world \<Rightarrow> dns_outcome \<times> world" where
  "do_resolve net domain w =
     (gethostbyname net (clock w) domain,
      w\<lparr>clock := Suc (clock w), trace := trace w @ [Resolve domain]\<rparr>)"

definition do_head :: "network \<Rightarrow> string \<Rightarrow> world \<Rightarrow> http_outcome \<times> world" where
  "do_head net url w =
     (requests_head net (clock w) url,
      w\<lparr>clock := Suc (clock w), trace := trace w @ [Head url]\<rparr>)"

definition do_sleep :: "world \<Rightarrow> world" where
  "do_sleep w = w\<lparr>trace := trace w @ [Sleep]\<rparr>"

subsection \<open>get\_domain\_from\_url and domain\_has\_dns\<close>

definition get_domain_from_url :: "network \<Rightarrow> string option \<Rightarrow> string option" where
  "get_domain_from_url net url =
     (case url of
        None \<Rightarrow> None
      | Some u \<Rightarrow>
          if u = [] then None
          else
            let u' = (if prefix ''http://'' u \<or> prefix ''https://'' u \<or> prefix ''//'' u
                      then u else ''http://'' @ u)
            in case urlparse net u' of
                 None \<Rightarrow> None
               | Some (netloc, path) \<Rightarrow> Some (if netloc \<noteq> [] then netloc else path))"

definition domain_has_dns :: "network \<Rightarrow> string \<Rightarrow> world \<Rightarrow> (bool \<times> string) \<times> world" where
  "domain_has_dns net domain w =
     (if domain = [] then ((False, ''Empty domain''), w)
      else case do_resolve net domain w of
             (Resolved ip, w') \<Rightarrow> ((True, ip), w')
           | (Gaierror, w') \<Rightarrow> ((False, ''DNS resolution failed''), w')
           | (DnsError e, w') \<Rightarrow> ((False, ''DNS error: '' @ e), w'))"

subsection \<open>domain\_responds\_to\_http\<close>

text \<open>
  The inner loop \<open>for attempt in range(self.retries)\<close> on one URL, over the attempts left.
  A response returns from the function (after storing the result in the cache); a timeout
  sleeps unless the attempt is the last one; each \<open>continue\<close> goes on with the next
  attempt of the same loop.
\<close>

fun attempt_loop ::
  "network \<Rightarrow> string \<Rightarrow> string \<Rightarrow> nat list \<Rightarrow> DomainVerifier \<Rightarrow> world
   \<Rightarrow> http_result option \<times> DomainVerifier \<times> world" where
  "attempt_loop net cache_key url [] self w = (None, self, w)"
| "attempt_loop net cache_key url (attempt # rest) self w =
     (case do_head net url w of
        (Response status_code server_header, w') \<Rightarrow>
          (let server = (case server_header of None \<Rightarrow> ''Unknown'' | Some s \<Rightarrow> s);
               result = (True, Some status_code, server)
           in (Some result, self\<lparr>cache := (cache self)(cache_key \<mapsto> result)\<rparr>, w'))
      | (Timeout, w') \<Rightarrow>
          if int attempt = retries self - 1
          then attempt_loop net cache_key url rest self w'
          else attempt_loop net cache_key url rest self (do_sleep w')
      | (ConnectionError, w') \<Rightarrow> attempt_loop net cache_key url rest self w'
      | (OtherError, w') \<Rightarrow> attempt_loop net cache_key url rest self w')"

text \<open>The outer loop \<open>for url in urls_to_try\<close>.\<close>

fun url_loop ::
  "network \<Rightarrow> string \<Rightarrow> string list \<Rightarrow> DomainVerifier \<Rightarrow> world
   \<Rightarrow> http_result option \<times> DomainVerifier \<times> world" where
  "url_loop net cache_key [] self w = (None, self, w)"
| "url_loop net cache_key (url # urls) self w =
     (case attempt_loop net cache_key url [0..<nat (retries self)] self w of
        (Some result, self', w') \<Rightarrow> (Some result, self', w')
      | (None, self', w') \<Rightarrow> url_loop net cache_key urls self' w')"

definition domain_responds_to_http ::
  "network \<Rightarrow> string \<Rightarrow> DomainVerifier \<Rightarrow> world \<Rightarrow> http_result \<times> DomainVerifier \<times> world" where
  "domain_responds_to_http net domain self w =
     (if domain = [] then ((False, None, ''Empty domain''), self, w)
      else
        let cache_key = ''http_check:'' @ domain
        in case cache self cache_key of
             Some cached \<Rightarrow> (cached, self, w)
           | None \<Rightarrow>
               (case url_loop net cache_key [''https://'' @ domain, ''http://'' @ domain]
                       self w of
                  (Some result, self', w') \<Rightarrow> (result, self', w')
                | (None, self', w') \<Rightarrow>
                    (let result = (False, None, ''No HTTP response'')
                     in (result, self'\<lparr>cache := (cache self')(cache_key \<mapsto> result)\<rparr>, w'))))"

subsection \<open>verify\_domain\<close>

text \<open>The part of \<open>verify_domain\<close> after the comment \<open># Check HTTP\<close>.\<close>

definition check_http ::
  "network \<Rightarrow> bool \<Rightarrow> string \<Rightarrow> VerificationResult \<Rightarrow> DomainVerifier \<Rightarrow> world
   \<Rightarrow> VerificationResult \<times> DomainVerifier \<times> world" where
  "check_http net require_http clean_domain result self w =
     (if require_http then
        case domain_responds_to_http net clean_domain self w of
          ((http_ok, status_code, server_info), self', w') \<Rightarrow>
            (let result = result\<lparr>http_responds := http_ok\<rparr>
             in if http_ok then
                  (result\<lparr>http_status := status_code, vr_server := Some server_info,
                          verified := True\<rparr>, self', w')
                else (result\<lparr>error := Some server_info\<rparr>, self', w'))
      else (result, self, w))"

definition verify_domain ::
  "network \<Rightarrow> string option \<Rightarrow> bool \<Rightarrow> bool \<Rightarrow> DomainVerifier \<Rightarrow> world
   \<Rightarrow> VerificationResult \<times> DomainVerifier \<times> world" where
  "verify_domain net domain require_dns require_http self w =
     (let result = \<lparr>verified = False, vr_domain = domain, dns_valid = False, dns_ip = None,
                     http_responds = False, http_status = None, vr_server = None,
                     error = None\<rparr>
      in if domain = None \<or> domain = Some [] then
           (result\<lparr>error := Some ''Empty domain''\<rparr>, self, w)
         else
           case get_domain_from_url net domain of
             None \<Rightarrow> (result\<lparr>error := Some ''Invalid domain format''\<rparr>, self, w)
           | Some clean_domain \<Rightarrow>
               if clean_domain = [] then
                 (result\<lparr>error := Some ''Invalid domain format''\<rparr>, self, w)
               else
                 let result = result\<lparr>vr_domain := Some clean_domain\<rparr>
                 in if require_dns then
                      case domain_has_dns net clean_domain w of
                        ((dns_ok, dns_info), w') \<Rightarrow>
                          (let result = result\<lparr>dns_valid := dns_ok\<rparr>
                           in if dns_ok then
                                check_http net require_http clean_domain
                                  (result\<lparr>dns_ip := Some dns_info\<rparr>) self w'
                              else (result\<lparr>error := Some dns_info\<rparr>, self, w'))
                    else check_http net require_http clean_domain result self w)"

subsection \<open>Vocabulary of the verifier's properties\<close>

text \<open>
  \<open>probe_schedule\<close> lists the requests \<open>domain_responds_to_http\<close> may make, as pairs of
  URL and attempt number, URL-major. \<open>outcomes\<close> are the answers the network gives to
  requests for the given URLs made one after the other from time \<open>c\<close> on. \<open>probe_events\<close>
  are the events of one unanswered request: the request, and a sleep if it timed out and
  was not the last attempt. \<open>flat_probe\<close> is the two loops of \<open>domain_responds_to_http\<close>
  run as one loop over a list of such pairs.
\<close>

definition probe_schedule :: "int \<Rightarrow> string \<Rightarrow> (string \<times> nat) list" where
  "probe_schedule r domain =
     concat (map (\<lambda>url. map (Pair url) [0..<nat r])
               [''https://'' @ domain, ''http://'' @ domain])"

fun outcomes :: "network \<Rightarrow> nat \<Rightarrow> string list \<Rightarrow> http_outcome list" where
  "outcomes net c [] = []"
| "outcomes net c (url # urls) = requests_head net c url # outcomes net (Suc c) urls"

fun unanswered :: "http_outcome \<Rightarrow> bool" where
  "unanswered (Response status_code server_header) = False"
| "unanswered _ = True"

fun answer :: "http_outcome \<Rightarrow> http_result" where
  "answer (Response status_code server_header) =
     (True, Some status_code, case server_header of None \<Rightarrow> ''Unknown'' | Some s \<Rightarrow> s)"
| "answer _ = (False, None, ''No HTTP response'')"

fun probe_events :: "int \<Rightarrow> (string \<times> nat) \<times> http_outcome \<Rightarrow> event list" where
  "probe_events r ((url, attempt), out) =
     Head url # (if out = Timeout \<and> int attempt \<noteq> r - 1 then [Sleep] else [])"

fun flat_probe ::
  "network \<Rightarrow> string \<Rightarrow> (string \<times> nat) list \<Rightarrow> DomainVerifier \<Rightarrow> world
   \<Rightarrow> http_result option \<times> DomainVerifier \<times> world" where
  "flat_probe net cache_key [] self w = (None, self, w)"
| "flat_probe net cache_key ((url, attempt) # rest) self w =
     (case do_head net url w of
        (Response status_code server_header, w') \<Rightarrow>
          (let server = (case server_header of None \<Rightarrow> ''Unknown'' | Some s \<Rightarrow> s);
               result = (True, Some status_code, server)
           in (Some result, self\<lparr>cache := (cache self)(cache_key \<mapsto> result)\<rparr>, w'))
      | (Timeout, w') \<Rightarrow>
          if int attempt = retries self - 1
          then flat_probe net cache_key rest self w'
          else flat_probe net cache_key rest self (do_sleep w')
      | (ConnectionError, w') \<Rightarrow> flat_probe net cache_key rest self w'
      | (OtherError, w') \<Rightarrow> flat_probe net cache_key rest self w')"

section \<open>The domain-guessing fallback\<close>

subsection \<open>The patterns\<close>

text \<open>
  \<open>str.split()\<close> without argument splits at runs of whitespace; the whitespace characters
  below 256 are 9-13, 28-32, 133 and 160. \<open>replace_space new s\<close> is \<open>s.replace(' ', new)\<close>.
  An exception of the program is a \<open>py_error\<close>.
\<close>

datatype py_error = IndexError | KeyError | TypeError | AttributeError | ValueError
  | JSONDecodeError | TimeoutExpired | RequestException | OSError

definition is_space :: "char \<Rightarrow> bool" where
  "is_space c =
     (let n = (of_char c :: nat)
      in (9 \<le> n \<and> n \<le> 13) \<or> (28 \<le> n \<and> n \<le> 32) \<or> n = 133 \<or> n = 160)"

fun split_acc :: "string \<Rightarrow> string \<Rightarrow> string list" where
  "split_acc [] word = (if word = [] then [] else [word])"
| "split_acc (c # s) word =
     (if is_space c then (if word = [] then split_acc s [] else word # split_acc s [])
      else split_acc s (word @ [c]))"

definition py_split :: "string \<Rightarrow> string list" where
  "py_split s = split_acc s []"

definition replace_space :: "string \<Rightarrow> string \<Rightarrow> string" where
  "replace_space new s = concat (map (\<lambda>c. if c = CHR '' '' then new else [c]) s)"

text \<open>
  The list \<open>patterns\<close> of \<open>run_crawl\<close> and of \<open>verify_website_from_company\<close>. Its third
  element \<open>company_name.lower().split()[0]\<close> raises \<open>IndexError\<close> for a name without a word.
\<close>

definition guess_patterns :: "string \<Rightarrow> py_error + string list" where
  "guess_patterns company_name =
     (case py_split (lower company_name) of
        [] \<Rightarrow> Inl IndexError
      | first_word # _ \<Rightarrow>
          Inr [replace_space [] (lower company_name),
               replace_space ''-'' (lower company_name),
               first_word])"

definition TLDS :: "string list" where
  "TLDS = [''com'', ''net'', ''org'', ''biz'']"

subsection \<open>The loops of run\_crawl (crawl\_verified.py)\<close>

text \<open>
  The inner loop \<open>for tld in [...]\<close> and the outer loop \<open>for pattern in patterns\<close>; a
  verified result leaves both loops (\<open>found\<close>, \<open>break\<close>).
\<close>

fun tld_loop ::
  "network \<Rightarrow> string \<Rightarrow> string list \<Rightarrow> DomainVerifier \<Rightarrow> world
   \<Rightarrow> VerificationResult option \<times> DomainVerifier \<times> world" where
  "tld_loop net pattern [] self w = (None, self, w)"
| "tld_loop net pattern (tld # tlds) self w =
     (case verify_domain net (Some (pattern @ ''.'' @ tld)) True True self w of
        (result, self', w') \<Rightarrow>
          if verified result then (Some result, self', w')
          else tld_loop net pattern tlds self' w')"

fun pattern_loop ::
  "network \<Rightarrow> string list \<Rightarrow> DomainVerifier \<Rightarrow> world
   \<Rightarrow> VerificationResult option \<times> DomainVerifier \<times> world" where
  "pattern_loop net [] self w = (None, self, w)"
| "pattern_loop net (pattern # patterns) self w =
     (case tld_loop net pattern TLDS self w of
        (Some result, self', w') \<Rightarrow> (Some result, self', w')
      | (None, self', w') \<Rightarrow> pattern_loop net patterns self' w')"

text \<open>
  The body of the verification loop of \<open>run_crawl\<close> for one business: the website, if one
  is given, is tried first; the patterns are built only after it failed.
\<close>

definition verify_business ::
  "network \<Rightarrow> string \<Rightarrow> string \<Rightarrow> DomainVerifier \<Rightarrow> world
   \<Rightarrow> py_error + (VerificationResult option \<times> DomainVerifier \<times> world)" where
  "verify_business net company_name website_provided self w =
     (case (if website_provided \<noteq> [] then
              case verify_domain net (Some website_provided) True True self w of
                (result, self', w') \<Rightarrow>
                  if verified result then (Some result, self', w') else (None, self', w')
            else (None, self, w)) of
        (Some result, self', w') \<Rightarrow> Inr (Some result, self', w')
      | (None, self', w') \<Rightarrow>
          (case guess_patterns company_name of
             Inl e \<Rightarrow> Inl e
           | Inr patterns \<Rightarrow> Inr (pattern_loop net patterns self' w')))"

subsection \<open>verify\_website\_from\_company (domain\_verification.py)\<close>

text \<open>
  The function makes a verifier of its own and runs the same two loops, returning from
  inside them; without success it returns a dictionary with the error text only.
\<close>

datatype company_verification = Verified_Site VerificationResult | Not_Verified string

definition verify_website_from_company ::
  "network \<Rightarrow> string \<Rightarrow> string option \<Rightarrow> world \<Rightarrow> py_error + (company_verification \<times> world)" where
  "verify_website_from_company net company_name website_url w =
     (let verifier = new_DomainVerifier
      in case (if website_url \<noteq> None \<and> website_url \<noteq> Some [] then
                 case verify_domain net website_url True True verifier w of
                   (result, verifier', w') \<Rightarrow>
                     if verified result then (Some result, verifier', w')
                     else (None, verifier', w')
               else (None, verifier, w)) of
           (Some result, verifier', w') \<Rightarrow> Inr (Verified_Site result, w')
         | (None, verifier', w') \<Rightarrow>
             (case guess_patterns company_name of
                Inl e \<Rightarrow> Inl e
              | Inr patterns \<Rightarrow>
                  (case pattern_loop net patterns verifier' w' of
                     (Some result, _, w'') \<Rightarrow> Inr (Verified_Site result, w'')
                   | (None, _, w'') \<Rightarrow>
                       Inr (Not_Verified (''Could not verify domain for '' @ company_name),
                            w''))))"

subsection \<open>Vocabulary of the fallback's properties\<close>

text \<open>
  \<open>candidate_domains\<close> lists the guessed domains pattern by pattern, each pattern with the
  four endings in their order. \<open>first_verified\<close> verifies the domains of a list one after
  the other and stops at the first one that is verified.
\<close>

definition candidate_domains :: "string list \<Rightarrow> string list" where
  "candidate_domains patterns =
     concat (map (\<lambda>pattern. map (\<lambda>tld. pattern @ ''.'' @ tld) TLDS) patterns)"

fun first_verified ::
  "network \<Rightarrow> string list \<Rightarrow> DomainVerifier \<Rightarrow> world
   \<Rightarrow> VerificationResult option \<times> DomainVerifier \<times> world" where
  "first_verified net [] self w = (None, self, w)"
| "first_verified net (domain # domains) self w =
     (case verify_domain net (Some domain) True True self w of
        (result, self', w') \<Rightarrow>
          if verified result then (Some result, self', w')
          else first_verified net domains self' w')"

section \<open>The tech fingerprinter (enhanced\_tech\_detection.py)\<close>

subsection \<open>The web and the scanner\<close>

text \<open>
  What the detectors call and do not define: the HEAD request (its response headers, read
  by name), the GET request (the response text), the run of the external scanner (its
  return code and output), \<open>json.loads\<close>, the three regular-expression searches (the first
  group of the match), \<open>int\<close> on a string, and the clock. A call that raises gives \<open>Inl\<close>
  with the exception; \<open>loads\<close> and \<open>int_of_str\<close> give \<open>None\<close> where they raise
  (\<open>JSONDecodeError\<close>, \<open>ValueError\<close>). A \<open>py_error\<close> is any exception below \<open>Exception\<close>.
\<close>

record web =
  head_headers :: "string \<Rightarrow> py_error + (string \<rightharpoonup> string)"
  get_text :: "string \<Rightarrow> py_error + string"
  wpscan_run :: "string \<Rightarrow> py_error + (int \<times> string)"
  loads :: "string \<Rightarrow> json option"
  re_apache_version :: "string \<Rightarrow> string option"
  re_wp_version :: "string \<Rightarrow> string option"
  re_drupal_version :: "string \<Rightarrow> string option"
  int_of_str :: "string \<Rightarrow> int option"
  now_isoformat :: string

text \<open>
  \<open>try_except body handler\<close> is \<open>try: body except Exception as e: handler\<close> for a body
  that gives a value; every \<open>py_error\<close> is caught.
\<close>

definition try_except :: "py_error + 'a \<Rightarrow> (py_error \<Rightarrow> py_error + 'a) \<Rightarrow> py_error + 'a" where
  "try_except body handler = (case body of Inl e \<Rightarrow> handler e | Inr v \<Rightarrow> Inr v)"

subsection \<open>Python's operations on a parsed JSON value\<close>

text \<open>
  \<open>py_contains k x\<close> is \<open>k in x\<close>, \<open>py_getitem x k\<close> is \<open>x[k]\<close>, \<open>py_get x k d\<close> is
  \<open>x.get(k, d)\<close>, \<open>py_items x\<close> is \<open>x.items()\<close>, \<open>py_len x\<close> is \<open>len(x)\<close>, for a string \<open>k\<close>; each
  raises on the values that do not support it. The keys of an object are distinct, as
  \<open>json.loads\<close> returns them.
\<close>

fun py_contains :: "string \<Rightarrow> json \<Rightarrow> py_error + bool" where
  "py_contains k (JObj kvs) = Inr (map_of kvs k \<noteq> None)"
| "py_contains k (JArr xs) = Inr (JStr k \<in> set xs)"
| "py_contains k (JStr s) = Inr (py_in k s)"
| "py_contains k _ = Inl TypeError"

fun py_getitem :: "json \<Rightarrow> string \<Rightarrow> py_error + json" where
  "py_getitem (JObj kvs) k = (case map_of kvs k of None \<Rightarrow> Inl KeyError | Some v \<Rightarrow> Inr v)"
| "py_getitem _ k = Inl TypeError"

fun py_get :: "json \<Rightarrow> string \<Rightarrow> json \<Rightarrow> py_error + json" where
  "py_get (JObj kvs) k d = Inr (case map_of kvs k of None \<Rightarrow> d | Some v \<Rightarrow> v)"
| "py_get _ k d = Inl AttributeError"

fun py_items :: "json \<Rightarrow> py_error + (string \<times> json) list" where
  "py_items (JObj kvs) = Inr kvs"
| "py_items _ = Inl AttributeError"

fun py_len :: "json \<Rightarrow> py_error + nat" where
  "py_len (JStr s) = Inr (length s)"
| "py_len (JArr xs) = Inr (length xs)"
| "py_len (JObj kvs) = Inr (length kvs)"
| "py_len _ = Inl TypeError"

fun py_truthy :: "json \<Rightarrow> bool" where
  "py_truthy JNull = False"
| "py_truthy (JBool b) = b"
| "py_truthy (JNum n) = (n \<noteq> 0)"
| "py_truthy (JStr s) = (s \<noteq> [])"
| "py_truthy (JArr xs) = (xs \<noteq> [])"
| "py_truthy (JObj kvs) = (kvs \<noteq> [])"

subsection \<open>detect\_server\_info\<close>

definition default_server_info :: server_info where
  "default_server_info =
     \<lparr>srv_server = None, srv_version = None, srv_outdated = False, srv_framework = None,
      srv_powered_by = None, srv_security_headers = []\<rparr>"

definition security_header_names :: "string list" where
  "security_header_names =
     [''Strict-Transport-Security'', ''Content-Security-Policy'', ''X-Content-Type-Options'',
      ''X-Frame-Options'', ''X-XSS-Protection'']"

fun security_headers_loop :: "(string \<rightharpoonup> string) \<Rightarrow> string list \<Rightarrow> server_info \<Rightarrow> server_info" where
  "security_headers_loop headers [] result = result"
| "security_headers_loop headers (header # rest) result =
     security_headers_loop headers rest
       (case headers header of
          None \<Rightarrow> result
        | Some v \<Rightarrow> result\<lparr>srv_security_headers := srv_security_headers result @ [(header, v)]\<rparr>)"

text \<open>The body of the \<open>try\<close> block: after the request nothing in it raises.\<close>

definition detect_server_info_body :: "web \<Rightarrow> string \<Rightarrow> server_info \<Rightarrow> py_error + server_info" where
  "detect_server_info_body web url result =
     (case head_headers web url of
        Inl e \<Rightarrow> Inl e
      | Inr headers \<Rightarrow>
          let result =
                (case headers ''Server'' of
                   None \<Rightarrow> result
                 | Some server_header \<Rightarrow>
                     let result = result\<lparr>srv_server := Some server_header\<rparr>
                     in if py_in ''Apache'' server_header then
                          (case re_apache_version web server_header of
                             None \<Rightarrow> result
                           | Some version \<Rightarrow>
                               let result = result\<lparr>srv_version := Some version\<rparr>
                               in if prefix ''2.2'' version
                                  then result\<lparr>srv_outdated := True\<rparr> else result)
                        else result);
              result =
                (case headers ''X-Powered-By'' of
                   None \<Rightarrow> result
                 | Some powered \<Rightarrow>
                     let result = result\<lparr>srv_powered_by := Some powered\<rparr>
                     in if py_in ''PHP'' powered
                        then result\<lparr>srv_framework := Some ''PHP''\<rparr> else result)
          in Inr (security_headers_loop headers security_header_names result))"

definition detect_server_info :: "web \<Rightarrow> string \<Rightarrow> py_error + server_info" where
  "detect_server_info web url =
     (let result = default_server_info
      in try_except (detect_server_info_body web url result) (\<lambda>e. Inr result))"

subsection \<open>detect\_wordpress\<close>

definition default_wordpress_info :: wordpress_info where
  "default_wordpress_info =
     \<lparr>wp_is_wordpress = False, wp_version = JNull, wp_plugins = [],
      wp_vulnerable_plugins = [], wp_themes = [], wp_vulnerabilities = 0,
      wp_outdated_core = False\<rparr>"

definition wp_indicators :: "string list" where
  "wp_indicators =
     [''wp-content'', ''wp-includes'', ''/wp-json/'', ''wordpress'',
      [CHR ''<''] @ ''meta name='' @ [CHR 0x22] @ ''generator'' @ [CHR 0x22]
        @ '' content='' @ [CHR 0x22] @ ''wordpress'']"

text \<open>
  The statements that work on the scanner's JSON change \<open>result\<close> step by step and may
  raise in between, so each gives the exception, if any, together with \<open>result\<close> as it is
  at that point. \<open>plugin_step\<close> is the body of the loop over the plugins.
\<close>

definition plugin_step ::
  "string \<times> json \<Rightarrow> wordpress_info \<Rightarrow> py_error option \<times> wordpress_info" where
  "plugin_step entry result =
     (case entry of (plugin_name, plugin_data) \<Rightarrow>
        (case (case py_contains ''vulnerabilities'' plugin_data of
                 Inl e \<Rightarrow> Inl e
               | Inr False \<Rightarrow> Inr result
               | Inr True \<Rightarrow>
                   (case py_getitem plugin_data ''vulnerabilities'' of
                      Inl e \<Rightarrow> Inl e
                    | Inr found \<Rightarrow>
                        if py_truthy found then
                          (case py_get plugin_data ''version'' (JStr ''Unknown'') of
                             Inl e \<Rightarrow> Inl e
                           | Inr version \<Rightarrow>
                               (case py_len found of
                                  Inl e \<Rightarrow> Inl e
                                | Inr n \<Rightarrow>
                                    Inr (result\<lparr>wp_vulnerable_plugins :=
                                           wp_vulnerable_plugins result
                                           @ [\<lparr>vp_name = plugin_name, vp_version = version,
                                               vp_vulnerabilities = n\<rparr>]\<rparr>)))
                        else Inr result)) of
           Inl e \<Rightarrow> (Some e, result)
         | Inr result' \<Rightarrow> (None, result'\<lparr>wp_plugins := wp_plugins result' @ [plugin_name]\<rparr>)))"

fun plugins_loop ::
  "(string \<times> json) list \<Rightarrow> wordpress_info \<Rightarrow> py_error option \<times> wordpress_info" where
  "plugins_loop [] result = (None, result)"
| "plugins_loop (entry # rest) result =
     (case plugin_step entry result of
        (Some e, result') \<Rightarrow> (Some e, result')
      | (None, result') \<Rightarrow> plugins_loop rest result')"

definition process_plugins :: "json \<Rightarrow> wordpress_info \<Rightarrow> py_error option \<times> wordpress_info" where
  "process_plugins wpscan_json result =
     (case py_contains ''plugins'' wpscan_json of
        Inl e \<Rightarrow> (Some e, result)
      | Inr False \<Rightarrow> (None, result)
      | Inr True \<Rightarrow>
          (case py_getitem wpscan_json ''plugins'' of
             Inl e \<Rightarrow> (Some e, result)
           | Inr plugins \<Rightarrow>
               (case py_items plugins of
                  Inl e \<Rightarrow> (Some e, result)
                | Inr entries \<Rightarrow> plugins_loop entries result)))"

definition process_version ::
  "web \<Rightarrow> json \<Rightarrow> wordpress_info \<Rightarrow> py_error option \<times> wordpress_info" where
  "process_version web wpscan_json result =
     (case py_contains ''version'' wpscan_json of
        Inl e \<Rightarrow> (Some e, result)
      | Inr False \<Rightarrow> (None, result)
      | Inr True \<Rightarrow>
          (case py_getitem wpscan_json ''version'' of
             Inl e \<Rightarrow> (Some e, result)
           | Inr version_entry \<Rightarrow>
               (case py_get version_entry ''number'' JNull of
                  Inl e \<Rightarrow> (Some e, result)
                | Inr number \<Rightarrow>
                    if py_truthy number then
                      let result = result\<lparr>wp_version := number\<rparr>
                      in case number of
                           JStr s \<Rightarrow>
                             (case int_of_str web (takeWhile (\<lambda>c. c \<noteq> CHR ''.'') s) of
                                None \<Rightarrow> (Some ValueError, result)
                              | Some major_version \<Rightarrow>
                                  if major_version < 5
                                  then (None, result\<lparr>wp_outdated_core := True\<rparr>)
                                  else (None, result))
                         | _ \<Rightarrow> (Some AttributeError, result)
                    else (None, result))))"

definition process_wpscan_json ::
  "web \<Rightarrow> json \<Rightarrow> wordpress_info \<Rightarrow> py_error option \<times> wordpress_info" where
  "process_wpscan_json web wpscan_json result =
     (case process_plugins wpscan_json result of
        (Some e, result) \<Rightarrow> (Some e, result)
      | (None, result) \<Rightarrow>
          (case process_version web wpscan_json result of
             (Some e, result) \<Rightarrow> (Some e, result)
           | (None, result) \<Rightarrow>
               (None, result\<lparr>wp_vulnerabilities := length (wp_vulnerable_plugins result)\<rparr>)))"

text \<open>
  The block \<open>try: ... wpscan ... except subprocess.TimeoutExpired: pass except Exception:
  pass\<close>, with its inner \<open>try: ... except json.JSONDecodeError: pass\<close>. An exception of the
  JSON statements that is not a \<open>JSONDecodeError\<close> leaves the inner \<open>try\<close> and is caught by
  the outer one. Whatever is caught, \<open>result\<close> keeps the changes made before.
\<close>

definition run_wpscan :: "web \<Rightarrow> string \<Rightarrow> wordpress_info \<Rightarrow> py_error option \<times> wordpress_info" where
  "run_wpscan web url result =
     (case (case wpscan_run web url of
              Inl e \<Rightarrow> (Some e, result)
            | Inr (returncode, stdout) \<Rightarrow>
                if returncode = 0 then
                  (case (case loads web stdout of
                           None \<Rightarrow> (Some JSONDecodeError, result)
                         | Some wpscan_json \<Rightarrow> process_wpscan_json web wpscan_json result) of
                     (Some JSONDecodeError, result') \<Rightarrow> (None, result')
                   | outcome \<Rightarrow> outcome)
                else (None, result)) of
        (Some TimeoutExpired, result') \<Rightarrow> (None, result')
      | (Some e, result') \<Rightarrow> (None, result')
      | (None, result') \<Rightarrow> (None, result'))"

text \<open>The block \<open>try: ... version.php ... except: pass\<close>.\<close>

definition read_version_php :: "web \<Rightarrow> string \<Rightarrow> wordpress_info \<Rightarrow> py_error option \<times> wordpress_info" where
  "read_version_php web url result =
     (case (case get_text web (url @ ''/wp-includes/version.php'') of
              Inl e \<Rightarrow> (Some e, result)
            | Inr text \<Rightarrow>
                (case re_wp_version web text of
                   None \<Rightarrow> (None, result)
                 | Some version \<Rightarrow> (None, result\<lparr>wp_version := JStr version\<rparr>))) of
        (Some e, result') \<Rightarrow> (None, result')
      | (None, result') \<Rightarrow> (None, result'))"

text \<open>The body of the outer \<open>try\<close> block, and the function with its \<open>except Exception\<close>.\<close>

definition detect_wordpress_body ::
  "web \<Rightarrow> string \<Rightarrow> wordpress_info \<Rightarrow> py_error option \<times> wordpress_info" where
  "detect_wordpress_body web url result =
     (case get_text web url of
        Inl e \<Rightarrow> (Some e, result)
      | Inr text \<Rightarrow>
          let content = lower text
          in if \<not> list_ex (\<lambda>indicator. py_in indicator content) wp_indicators
             then (None, result)
             else
               let result = result\<lparr>wp_is_wordpress := True\<rparr>
               in case read_version_php web url result of
                    (Some e, result) \<Rightarrow> (Some e, result)
                  | (None, result) \<Rightarrow> run_wpscan web url result)"

definition detect_wordpress :: "web \<Rightarrow> string \<Rightarrow> py_error + wordpress_info" where
  "detect_wordpress web url =
     (case detect_wordpress_body web url default_wordpress_info of
        (Some e, result) \<Rightarrow> Inr result
      | (None, result) \<Rightarrow> Inr result)"

subsection \<open>detect\_other\_cms\<close>

definition default_other_cms_info :: other_cms_info where
  "default_other_cms_info = \<lparr>cms_type = None, cms_version = None, cms_outdated = False\<rparr>"

definition detect_other_cms_body :: "web \<Rightarrow> string \<Rightarrow> other_cms_info \<Rightarrow> py_error + other_cms_info" where
  "detect_other_cms_body web url result =
     (case get_text web url of
        Inl e \<Rightarrow> Inl e
      | Inr text \<Rightarrow>
          let content = lower text
          in if py_in ''drupal'' content \<or> py_in ''sites/all/modules'' content then
               let result = result\<lparr>cms_type := Some ''Drupal''\<rparr>
               in case re_drupal_version web content of
                    None \<Rightarrow> Inr result
                  | Some version \<Rightarrow> Inr (result\<lparr>cms_version := Some version\<rparr>)
             else if py_in ''joomla'' content \<or> py_in ''administrator/index.php'' content then
               Inr (result\<lparr>cms_type := Some ''Joomla''\<rparr>)
             else if py_in ''magento'' content \<or> py_in ''var/log/system.log'' content then
               Inr (result\<lparr>cms_type := Some ''Magento''\<rparr>)
             else Inr result)"

definition detect_other_cms :: "web \<Rightarrow> string \<Rightarrow> py_error + other_cms_info" where
  "detect_other_cms web url =
     (let result = default_other_cms_info
      in try_except (detect_other_cms_body web url result) (\<lambda>e. Inr result))"

subsection \<open>analyze\_tech\_stack\<close>

text \<open>
  The dictionary is built from the three calls in order; an exception of a call would
  leave the function, as nothing here catches it.
\<close>

definition analyze_tech_stack :: "web \<Rightarrow> string \<Rightarrow> py_error + TechStack" where
  "analyze_tech_stack web url =
     (case detect_server_info web url of
        Inl e \<Rightarrow> Inl e
      | Inr server_part \<Rightarrow>
          (case detect_wordpress web url of
             Inl e \<Rightarrow> Inl e
           | Inr wordpress_part \<Rightarrow>
               (case detect_other_cms web url of
                  Inl e \<Rightarrow> Inl e
                | Inr cms_part \<Rightarrow>
                    Inr \<lparr>server = server_part, wordpress = wordpress_part,
                         other_cms = cms_part, scan_timestamp = now_isoformat web\<rparr>)))"

subsection \<open>Concrete webs\<close>

text \<open>
  \<open>unreachable_web\<close> refuses every request. \<open>broken_scan_web\<close> serves a WordPress page, has
  no version file, and its scanner prints JSON of an unexpected shape: the plugins are a
  number, not an object.
\<close>

definition unreachable_web :: web where
  "unreachable_web =
     \<lparr>head_headers = (\<lambda>url. Inl RequestException),
      get_text = (\<lambda>url. Inl RequestException),
      wpscan_run = (\<lambda>url. Inl OSError),
      loads = (\<lambda>text. None),
      re_apache_version = (\<lambda>text. None),
      re_wp_version = (\<lambda>text. None),
      re_drupal_version = (\<lambda>text. None),
      int_of_str = (\<lambda>text. None),
      now_isoformat = ''2024-01-01T00:00:00''\<rparr>"

definition broken_scan_web :: web where
  "broken_scan_web =
     \<lparr>head_headers = (\<lambda>url. Inr [''Server'' \<mapsto> ''nginx'']),
      get_text = (\<lambda>url. if url = ''https://example.com''
                          then Inr ''<link href=/WP-Content/themes/x.css>''
                          else Inl RequestException),
      wpscan_run = (\<lambda>url. Inr (0, ''{}'')),
      loads = (\<lambda>text. Some (JObj [(''plugins'', JNum 5)])),
      re_apache_version = (\<lambda>text. None),
      re_wp_version = (\<lambda>text. None),
      re_drupal_version = (\<lambda>text. None),
      int_of_str = (\<lambda>text. None),
      now_isoformat = ''2024-01-01T00:00:00''\<rparr>"

subsection \<open>Concrete networks\<close>

text \<open>
  \<open>simple_urlparse\<close> is \<open>urlparse\<close> on URLs of the plain form scheme://host/path, which is
  all the examples use. In \<open>live_net\<close> every name resolves and every request is answered;
  in \<open>dead_net\<close> nothing resolves; \<open>refusing_once\<close> refuses the first connection and
  answers afterwards; \<open>slow_https\<close> times out on https, refuses the third connection and
  then answers without a \<open>Server\<close> header; in \<open>hyphen_only_net\<close> only
  \<open>joes-cafe.com\<close> resolves.
\<close>

definition simple_urlparse :: "string \<Rightarrow> (string \<times> string) option" where
  "simple_urlparse u =
     (let rest = (if prefix ''http://'' u then Some (drop 7 u)
                  else if prefix ''https://'' u then Some (drop 8 u)
                  else if prefix ''//'' u then Some (drop 2 u)
                  else None)
      in case rest of
           None \<Rightarrow> Some ([], u)
         | Some r \<Rightarrow> Some (takeWhile (\<lambda>c. c \<noteq> CHR ''/'') r, dropWhile (\<lambda>c. c \<noteq> CHR ''/'') r))"

definition live_net :: network where
  "live_net =
     \<lparr>urlparse = simple_urlparse,
      gethostbyname = (\<lambda>c domain. Resolved ''93.184.216.34''),
      requests_head = (\<lambda>c url. Response 200 (Some ''nginx''))\<rparr>"

definition dead_net :: network where
  "dead_net =
     \<lparr>urlparse = simple_urlparse,
      gethostbyname = (\<lambda>c domain. Gaierror),
      requests_head = (\<lambda>c url. ConnectionError)\<rparr>"

definition refusing_once :: network where
  "refusing_once =
     \<lparr>urlparse = simple_urlparse,
      gethostbyname = (\<lambda>c domain. Resolved ''93.184.216.34''),
      requests_head = (\<lambda>c url. if c = 0 then ConnectionError else Response 200 (Some ''nginx''))\<rparr>"

definition slow_https :: network where
  "slow_https =
     \<lparr>urlparse = simple_urlparse,
      gethostbyname = (\<lambda>c domain. Resolved ''93.184.216.34''),
      requests_head = (\<lambda>c url. if prefix ''https://'' url then Timeout
                                else if c = 2 then ConnectionError
                                else Response 301 None)\<rparr>"

definition hyphen_only_net :: network where
  "hyphen_only_net =
     \<lparr>urlparse = simple_urlparse,
      gethostbyname = (\<lambda>c domain. if domain = ''joes-cafe.com'' then Resolved ''203.0.113.7''
                                   else Gaierror),
      requests_head = (\<lambda>c url. Response 200 (Some ''nginx''))\<rparr>"

definition world0 :: world where
  "world0 = \<lparr>clock = 0, trace = []\<rparr>"

section \<open>Properties of the viability scorer\<close>

lemmas str_eval = lower_def lower_char_def digit_char_def char_of_def bit_0 str_nat.simps
  str_int_def

lemma py_in_iff: "py_in k s \<longleftrightarrow> (\<exists>p q. s = p @ k @ q)"
proof (induction s)
  case Nil
  then show ?case by auto
next
  case (Cons c s)
  show ?case
  proof
    assume "py_in k (c # s)"
    then consider "prefix k (c # s)" | "py_in k s" by auto
    then show "\<exists>p q. c # s = p @ k @ q"
    proof cases
      case 1
      then obtain q where "c # s = k @ q" by (auto simp: prefix_def)
      then have "c # s = [] @ k @ q" by simp
      then show ?thesis by blast
    next
      case 2
      with Cons obtain p q where "s = p @ k @ q" by blast
      then have "c # s = (c # p) @ k @ q" by simp
      then show ?thesis by blast
    qed
  next
    assume "\<exists>p q. c # s = p @ k @ q"
    then obtain p q where pq: "c # s = p @ k @ q" by blast
    show "py_in k (c # s)"
    proof (cases p)
      case Nil
      with pq have "prefix k (c # s)" by (simp add: prefix_def)
      then show ?thesis by simp
    next
      case (Cons a p')
      with pq have "s = p' @ k @ q" by simp
      with Cons.IH have "py_in k s" by blast
      then show ?thesis by simp
    qed
  qed
qed

lemma exclusion_loop_find:
  "exclusion_loop ks s acc =
     (case find (\<lambda>keyword. py_in keyword s) ks of
        None \<Rightarrow> acc
      | Some keyword \<Rightarrow> (0, ''EXCLUDE'', [''Matches exclusion keyword: '' @ keyword]))"
  by (induction ks) auto

lemma keyword_filter_find:
  "keyword_filter ks s =
     (case find (\<lambda>keyword. py_in keyword s) ks of
        None \<Rightarrow> None
      | Some keyword \<Rightarrow> Some (Scored 0 ''EXCLUDE'' [''Matches exclusion keyword: '' @ keyword]))"
  by (induction ks) auto

lemma first_match_None: "first_match name = None \<longleftrightarrow> \<not> matches_exclusion name"
  by (auto simp: first_match_def matches_exclusion_def find_None_iff list_ex_iff)

lemma first_match_Some:
  "first_match name = Some keyword \<Longrightarrow>
   keyword \<in> set EXCLUDE_KEYWORDS \<and> py_in keyword (lower name)"
  by (auto simp: first_match_def find_Some_iff)

lemma exclusion_loop_no_match:
  "\<not> matches_exclusion name \<Longrightarrow> exclusion_loop EXCLUDE_KEYWORDS (lower name) acc = acc"
  using first_match_None [of name] by (simp add: exclusion_loop_find first_match_def)

lemma exclusion_loop_match:
  "first_match name = Some keyword \<Longrightarrow>
   exclusion_loop EXCLUDE_KEYWORDS (lower name) acc =
     (0, ''EXCLUDE'', [''Matches exclusion keyword: '' @ keyword])"
  by (simp add: exclusion_loop_find first_match_def)


lemma keyword_filter_match:
  "first_match name = Some keyword \<Longrightarrow>
   keyword_filter EXCLUDE_KEYWORDS (lower name) =
     Some (Scored 0 ''EXCLUDE'' [''Matches exclusion keyword: '' @ keyword])"
  by (simp add: keyword_filter_find first_match_def)

text \<open>Evaluation of the keyword match on the names used below.\<close>

lemma joes_cafe_not_excluded: "\<not> matches_exclusion ''Joe's Cafe''"
  by (simp add: matches_exclusion_def EXCLUDE_KEYWORDS_def str_eval)

lemma walmart_first_match: "first_match ''Walmart Supercenter'' = Some ''walmart''"
  by (simp add: first_match_def EXCLUDE_KEYWORDS_def str_eval)

lemma walmart_excluded: "matches_exclusion ''Walmart Supercenter''"
  using walmart_first_match first_match_None [of "''Walmart Supercenter''"] by auto

subsection \<open>The scoring blocks in closed form\<close>

lemma run_crawl_score_no_match:
  assumes "\<not> matches_exclusion name"
  shows "run_crawl_score name ts =
     (let score = min 100
            (50 + (if wp_is_wordpress (wordpress ts) then 20 else 0)
                + (if server_detected ts then 15 else 0)
                + (if length (wp_vulnerable_plugins (wordpress ts)) > 0 then 25 else 0)
                + (if wp_outdated_core (wordpress ts) then 15 else 0)
                + (if length (srv_security_headers (server ts)) = 0 then 10 else 0))
      in (score,
          if score \<ge> 70 then ''CONTACT'' else if score \<ge> 50 then ''MAYBE'' else ''EXCLUDE'',
          (if wp_is_wordpress (wordpress ts) then [''WordPress detected''] else [])
          @ (case srv_server (server ts) of None \<Rightarrow> []
             | Some s \<Rightarrow> if s \<noteq> [] then [''Server: '' @ s] else [])
          @ (if length (wp_vulnerable_plugins (wordpress ts)) > 0
             then [str_nat (length (wp_vulnerable_plugins (wordpress ts)))
                   @ '' vulnerable plugins'']
             else [])
          @ (if wp_outdated_core (wordpress ts) then [''Outdated WordPress''] else [])
          @ (if length (srv_security_headers (server ts)) = 0
             then [''Missing security headers''] else [])))"
  using assms
  by (simp add: run_crawl_score_def exclusion_loop_no_match server_detected_def
        Let_def split: option.splits)

lemma main_score_no_match:
  assumes "\<not> matches_exclusion name"
  shows "main_score name ts =
     (let score = min 100
            (50 + (if wp_is_wordpress (wordpress ts) then 20 else 0)
                + (if server_detected ts then 15 else 0)
                + (if length (wp_vulnerable_plugins (wordpress ts)) > 0 then 25 else 0)
                + (if wp_outdated_core (wordpress ts) then 15 else 0)
                + (if length (srv_security_headers (server ts)) = 0 then 10 else 0))
      in (score,
          if score \<ge> 70 then ''CONTACT'' else if score \<ge> 50 then ''MAYBE'' else ''EXCLUDE'',
          (if wp_is_wordpress (wordpress ts) then [''WordPress detected''] else [])
          @ (case srv_server (server ts) of None \<Rightarrow> []
             | Some s \<Rightarrow> if s \<noteq> [] then [''Server detected: '' @ s] else [])
          @ (if length (wp_vulnerable_plugins (wordpress ts)) > 0
             then [str_nat (length (wp_vulnerable_plugins (wordpress ts)))
                   @ '' vulnerable plugins'']
             else [])
          @ (if wp_outdated_core (wordpress ts) then [''Outdated WordPress core''] else [])
          @ (if length (srv_security_headers (server ts)) = 0
             then [''Missing security headers''] else [])))"
  using assms
  by (simp add: main_score_def exclusion_loop_no_match server_detected_def
        Let_def split: option.splits)

lemma run_crawl_score_match:
  "first_match name = Some keyword \<Longrightarrow>
   run_crawl_score name ts = (0, ''EXCLUDE'', [''Matches exclusion keyword: '' @ keyword])"
  by (simp add: run_crawl_score_def exclusion_loop_match)

lemma main_score_match:
  "first_match name = Some keyword \<Longrightarrow>
   main_score name ts = (0, ''EXCLUDE'', [''Matches exclusion keyword: '' @ keyword])"
  by (simp add: main_score_def exclusion_loop_match)

text \<open>
  Claim C1. For a business whose lower-cased name contains no exclusion keyword, the
  scoring block (of \<open>run_crawl\<close> and of \<open>main\<close> alike) returns the score
  min(100, 50 + 20 if WordPress is detected + 15 if the server entry is a non-empty string
  + 25 if there is a vulnerable plugin + 15 if the WordPress core is outdated + 10 if no
  security header is present), and its reasons are one string per triggered rule, in the
  order of the rules. An input triggering every rule (raw 135) gets exactly 100 and the
  recommendation CONTACT.
\<close>

theorem canonical_score_formula:
  assumes "\<not> matches_exclusion name"
  shows "fst (run_crawl_score name ts) =
           min 100 (50 + (if wp_is_wordpress (wordpress ts) then 20 else 0)
                       + (if server_detected ts then 15 else 0)
                       + (if length (wp_vulnerable_plugins (wordpress ts)) > 0 then 25 else 0)
                       + (if wp_outdated_core (wordpress ts) then 15 else 0)
                       + (if length (srv_security_headers (server ts)) = 0 then 10 else 0))
       \<and> fst (main_score name ts) = fst (run_crawl_score name ts)
       \<and> snd (snd (run_crawl_score name ts)) =
           (if wp_is_wordpress (wordpress ts) then [''WordPress detected''] else [])
           @ (if server_detected ts
              then [''Server: '' @ the (srv_server (server ts))] else [])
           @ (if length (wp_vulnerable_plugins (wordpress ts)) > 0
              then [str_nat (length (wp_vulnerable_plugins (wordpress ts)))
                    @ '' vulnerable plugins'']
              else [])
           @ (if wp_outdated_core (wordpress ts) then [''Outdated WordPress''] else [])
           @ (if length (srv_security_headers (server ts)) = 0
              then [''Missing security headers''] else [])
       \<and> snd (snd (main_score name ts)) =
           (if wp_is_wordpress (wordpress ts) then [''WordPress detected''] else [])
           @ (if server_detected ts
              then [''Server detected: '' @ the (srv_server (server ts))] else [])
           @ (if length (wp_vulnerable_plugins (wordpress ts)) > 0
              then [str_nat (length (wp_vulnerable_plugins (wordpress ts)))
                    @ '' vulnerable plugins'']
              else [])
           @ (if wp_outdated_core (wordpress ts) then [''Outdated WordPress core''] else [])
           @ (if length (srv_security_headers (server ts)) = 0
              then [''Missing security headers''] else [])
       \<and> (wp_is_wordpress (wordpress ts) \<and> server_detected ts
            \<and> length (wp_vulnerable_plugins (wordpress ts)) > 0
            \<and> wp_outdated_core (wordpress ts)
            \<and> length (srv_security_headers (server ts)) = 0
            \<longrightarrow> fst (run_crawl_score name ts) = 100
                \<and> fst (snd (run_crawl_score name ts)) = ''CONTACT''
                \<and> fst (main_score name ts) = 100
                \<and> fst (snd (main_score name ts)) = ''CONTACT'')"
  unfolding run_crawl_score_no_match [OF assms] main_score_no_match [OF assms]
  by (simp add: Let_def server_detected_def split: option.splits)

theorem canonical_score_formula_witness:
  "\<not> matches_exclusion ''Joe's Cafe''
   \<and> run_crawl_score ''Joe's Cafe'' all_signals_stack =
       (100, ''CONTACT'',
        [''WordPress detected'', ''Server: Apache/2.2.15'', ''1 vulnerable plugins'',
         ''Outdated WordPress'', ''Missing security headers''])"
  using canonical_score_formula [OF joes_cafe_not_excluded, of all_signals_stack]
    joes_cafe_not_excluded
  by (simp add: run_crawl_score_no_match all_signals_stack_def server_detected_def str_eval)

subsection \<open>Exclusion\<close>

lemma assess_sales_fit_match:
  "first_match name = Some keyword \<Longrightarrow>
   assess_sales_fit env name location domain osint_findings ts signals =
     Scored 0 ''EXCLUDE'' [''Matches exclusion keyword: '' @ keyword]"
  by (simp add: assess_sales_fit_def keyword_filter_match)

text \<open>
  Claim C4. A business name that contains, case-insensitively, a keyword of the exclusion
  list gets score 0, recommendation EXCLUDE and the single reason naming the matched
  keyword (the first one of the list that occurs), whatever the tech stack and the sales
  signals are: in both scoring blocks and in \<open>assess_sales_fit\<close>, where the match returns
  before the LLM is asked.
\<close>

theorem exclusion_short_circuit:
  assumes "matches_exclusion name"
  shows "\<exists>keyword. first_match name = Some keyword
           \<and> keyword \<in> set EXCLUDE_KEYWORDS \<and> py_in keyword (lower name)
           \<and> run_crawl_score name ts =
               (0, ''EXCLUDE'', [''Matches exclusion keyword: '' @ keyword])
           \<and> main_score name ts =
               (0, ''EXCLUDE'', [''Matches exclusion keyword: '' @ keyword])
           \<and> assess_sales_fit env name location domain osint_findings ts signals =
               Scored 0 ''EXCLUDE'' [''Matches exclusion keyword: '' @ keyword]"
proof -
  from assms obtain keyword where k: "first_match name = Some keyword"
    using first_match_None [of name] by auto
  show ?thesis
    using k first_match_Some [OF k] run_crawl_score_match [OF k] main_score_match [OF k]
      assess_sales_fit_match [OF k]
    by blast
qed

theorem exclusion_short_circuit_witness:
  "matches_exclusion ''Walmart Supercenter''
   \<and> run_crawl_score ''Walmart Supercenter'' all_signals_stack =
       (0, ''EXCLUDE'', [''Matches exclusion keyword: walmart''])
   \<and> main_score ''Walmart Supercenter'' all_signals_stack =
       (0, ''EXCLUDE'', [''Matches exclusion keyword: walmart''])
   \<and> assess_sales_fit llm_answers ''Walmart Supercenter'' ''Fort Smith, AR'' ''walmart.com'' 25
         all_signals_stack default_signals =
       Scored 0 ''EXCLUDE'' [''Matches exclusion keyword: walmart'']"
  using exclusion_short_circuit [OF walmart_excluded, of all_signals_stack llm_answers
      "''Fort Smith, AR''" "''walmart.com''" 25 default_signals]
    walmart_excluded walmart_first_match
  by auto

text \<open>
  Claim C10. Without a keyword match the scoring block's score is at least 50, so its
  recommendation is CONTACT or MAYBE; the block recommends EXCLUDE exactly when the name
  matches an exclusion keyword.
\<close>

theorem exclude_only_by_keyword:
  "(\<not> matches_exclusion name \<longrightarrow>
      50 \<le> fst (run_crawl_score name ts)
      \<and> fst (snd (run_crawl_score name ts)) \<in> {''CONTACT'', ''MAYBE''}
      \<and> 50 \<le> fst (main_score name ts)
      \<and> fst (snd (main_score name ts)) \<in> {''CONTACT'', ''MAYBE''})
   \<and> (fst (snd (run_crawl_score name ts)) = ''EXCLUDE'' \<longleftrightarrow> matches_exclusion name)
   \<and> (fst (snd (main_score name ts)) = ''EXCLUDE'' \<longleftrightarrow> matches_exclusion name)"
proof (cases "matches_exclusion name")
  case True
  then obtain keyword where k: "first_match name = Some keyword"
    using first_match_None [of name] by auto
  show ?thesis
    using True by (simp add: run_crawl_score_match [OF k] main_score_match [OF k])
next
  case False
  show ?thesis
    using False
    by (simp add: run_crawl_score_no_match [OF False] main_score_no_match [OF False] Let_def)
qed

theorem exclude_only_by_keyword_witness:
  "\<not> matches_exclusion ''Joe's Cafe''
   \<and> run_crawl_score ''Joe's Cafe'' default_stack = (60, ''MAYBE'', [''Missing security headers''])
   \<and> matches_exclusion ''Walmart Supercenter''
   \<and> fst (snd (run_crawl_score ''Walmart Supercenter'' default_stack)) = ''EXCLUDE''"
  using exclude_only_by_keyword [of "''Joe's Cafe''" default_stack]
    exclude_only_by_keyword [of "''Walmart Supercenter''" default_stack]
    joes_cafe_not_excluded walmart_excluded
  by (simp add: run_crawl_score_no_match default_stack_def server_detected_def)

subsection \<open>The fallback heuristic in closed form\<close>

lemma if_pair: "(if c then (a, b) else (a', b')) = (if c then a else a', if c then b else b')"
  by simp

lemma if_add_same: "(if c then s + a else s) = s + (if c then a else (0::int))"
  by simp

lemma if_add_sub: "(if c then s + a else s - b) = s + (if c then a else - (b::int))"
  by simp

lemma if_app_same: "(if c then r @ x else r) = r @ (if c then x else [])"
  by simp

lemma if_app_app: "(if c then r @ x else r @ y) = r @ (if c then x else y)"
  by simp

lemmas straighten = Let_def if_pair if_add_same if_add_sub if_app_same if_app_app add.assoc

lemma heuristic_score_fst:
  "fst (heuristic_score company_name location domain osint_findings ts signals) =
     50 + (if location \<noteq> [] \<and> lower location \<noteq> ''online'' \<and> lower location \<noteq> ''unknown''
           then 10 else - 20)
        + (if osint_findings > 0 then min 20 osint_findings else - 15)
        + (if wp_is_wordpress (wordpress ts)
           then 15 + (if wp_vulnerable_plugins (wordpress ts) \<noteq> [] then 20 else 0)
                   + (if wp_outdated_core (wordpress ts) then 15 else 0)
           else 0)
        + (if has_poor_security signals then 10 else 0)
        + (if has_outdated_server signals then 5 else 0)
        + opportunity_score signals"
  by (simp add: heuristic_score_def straighten split del: if_split cong: if_cong)

lemma heuristic_score_rec:
  "fst (snd (heuristic_score company_name location domain osint_findings ts signals)) =
     (if fst (heuristic_score company_name location domain osint_findings ts signals) \<ge> 70
      then ''CONTACT''
      else if fst (heuristic_score company_name location domain osint_findings ts signals) \<ge> 50
      then ''MAYBE'' else ''EXCLUDE'')"
  by (simp add: heuristic_score_def straighten split del: if_split cong: if_cong)


lemma run_crawl_score_rec:
  "fst (snd (run_crawl_score name ts)) =
     (if fst (run_crawl_score name ts) \<ge> 70 then ''CONTACT''
      else if fst (run_crawl_score name ts) \<ge> 50 then ''MAYBE'' else ''EXCLUDE'')"
proof (cases "first_match name")
  case None
  then have "\<not> matches_exclusion name" by (simp add: first_match_None)
  then show ?thesis by (simp add: run_crawl_score_no_match Let_def split del: if_split cong: if_cong)
next
  case (Some k)
  then show ?thesis by (simp add: run_crawl_score_match)
qed

lemma main_score_rec:
  "fst (snd (main_score name ts)) =
     (if fst (main_score name ts) \<ge> 70 then ''CONTACT''
      else if fst (main_score name ts) \<ge> 50 then ''MAYBE'' else ''EXCLUDE'')"
proof (cases "first_match name")
  case None
  then have "\<not> matches_exclusion name" by (simp add: first_match_None)
  then show ?thesis by (simp add: main_score_no_match Let_def split del: if_split cong: if_cong)
next
  case (Some k)
  then show ?thesis by (simp add: main_score_match)
qed

subsection \<open>Thresholds and the fallback\<close>

lemma run_crawl_tech_block_fst:
  "fst (run_crawl_tech_block score reasons ts) = min 100 (score + tech_increments ts)"
proof (cases "srv_server (server ts)")
  case None
  then show ?thesis
    by (simp add: run_crawl_tech_block_def tech_increments_def server_detected_def straighten
          min.commute split del: if_split cong: if_cong)
next
  case (Some s)
  then show ?thesis
    by (simp add: run_crawl_tech_block_def tech_increments_def server_detected_def straighten
          min.commute split del: if_split cong: if_cong)
qed

lemma run_crawl_tech_block_rec:
  "fst (snd (run_crawl_tech_block score reasons ts)) =
     (if fst (run_crawl_tech_block score reasons ts) \<ge> 70 then ''CONTACT''
      else if fst (run_crawl_tech_block score reasons ts) \<ge> 50 then ''MAYBE'' else ''EXCLUDE'')"
proof (cases "srv_server (server ts)")
  case None
  then show ?thesis
    by (simp add: run_crawl_tech_block_def straighten split del: if_split cong: if_cong)
next
  case (Some s)
  then show ?thesis
    by (simp add: run_crawl_tech_block_def straighten split del: if_split cong: if_cong)
qed


lemma run_crawl_score_block:
  assumes "\<not> matches_exclusion name"
  shows "run_crawl_score name ts = run_crawl_tech_block 50 [] ts"
  unfolding run_crawl_score_def run_crawl_tech_block_def exclusion_loop_no_match [OF assms]
  by (simp split del: if_split cong: if_cong)

lemma main_score_total:
  assumes "\<not> matches_exclusion name"
  shows "fst (main_score name ts) = min 100 (50 + tech_increments ts)"
  by (simp add: main_score_no_match [OF assms] tech_increments_def Let_def add.assoc
        split del: if_split cong: if_cong)

text \<open>
  Claim C6. The recommendation is CONTACT for a score of 70 or more, MAYBE from 50 up to
  69, EXCLUDE below 50. The branch of the scoring block that computes it does so for
  every value of the score it is entered with: it returns the clamped total of that
  score and the increments of the triggered rules, and the recommendation of that total.
  The block enters the branch with 50 when no keyword matches, so its score is the
  clamped total of 50 and the increments and its recommendation the one of that total
  (70 is reached by a WordPress site, 69 and 49 by no tech stack); with a keyword match
  it returns 0 and EXCLUDE. In both blocks and in \<open>_heuristic_score\<close> the recommendation
  is this function of the returned score, and \<open>_heuristic_score\<close> reaches every score.
\<close>

theorem recommendation_thresholds:
  "fst (run_crawl_tech_block score reasons ts) = min 100 (score + tech_increments ts)
   \<and> fst (snd (run_crawl_tech_block score reasons ts)) =
       (if min 100 (score + tech_increments ts) \<ge> 70 then ''CONTACT''
        else if min 100 (score + tech_increments ts) \<ge> 50 then ''MAYBE'' else ''EXCLUDE'')
   \<and> (\<not> matches_exclusion name \<longrightarrow>
        run_crawl_score name ts = run_crawl_tech_block 50 [] ts
        \<and> fst (run_crawl_score name ts) = min 100 (50 + tech_increments ts)
        \<and> fst (snd (run_crawl_score name ts)) =
            (if min 100 (50 + tech_increments ts) \<ge> 70 then ''CONTACT''
             else if min 100 (50 + tech_increments ts) \<ge> 50 then ''MAYBE'' else ''EXCLUDE'')
        \<and> fst (main_score name ts) = min 100 (50 + tech_increments ts)
        \<and> fst (snd (main_score name ts)) =
            (if min 100 (50 + tech_increments ts) \<ge> 70 then ''CONTACT''
             else if min 100 (50 + tech_increments ts) \<ge> 50 then ''MAYBE'' else ''EXCLUDE''))
   \<and> (matches_exclusion name \<longrightarrow>
        fst (run_crawl_score name ts) = 0 \<and> fst (snd (run_crawl_score name ts)) = ''EXCLUDE''
        \<and> fst (main_score name ts) = 0 \<and> fst (snd (main_score name ts)) = ''EXCLUDE'')
   \<and> fst (snd (run_crawl_score name ts)) =
     (if fst (run_crawl_score name ts) \<ge> 70 then ''CONTACT''
      else if fst (run_crawl_score name ts) \<ge> 50 then ''MAYBE'' else ''EXCLUDE'')
   \<and> fst (snd (main_score name ts)) =
     (if fst (main_score name ts) \<ge> 70 then ''CONTACT''
      else if fst (main_score name ts) \<ge> 50 then ''MAYBE'' else ''EXCLUDE'')
   \<and> fst (snd (heuristic_score name location domain osint_findings ts signals)) =
     (if fst (heuristic_score name location domain osint_findings ts signals) \<ge> 70
      then ''CONTACT''
      else if fst (heuristic_score name location domain osint_findings ts signals) \<ge> 50
      then ''MAYBE'' else ''EXCLUDE'')
   \<and> fst (heuristic_score name [] domain 0 default_stack
              (default_signals\<lparr>opportunity_score := s - 25\<rparr>)) = s
   \<and> fst (snd (heuristic_score name [] domain 0 default_stack
              (default_signals\<lparr>opportunity_score := s - 25\<rparr>))) =
     (if s \<ge> 70 then ''CONTACT'' else if s \<ge> 50 then ''MAYBE'' else ''EXCLUDE'')"
proof -
  have b1: "fst (run_crawl_tech_block score reasons ts) = min 100 (score + tech_increments ts)"
    by (rule run_crawl_tech_block_fst)
  have b2: "fst (snd (run_crawl_tech_block score reasons ts)) =
       (if min 100 (score + tech_increments ts) \<ge> 70 then ''CONTACT''
        else if min 100 (score + tech_increments ts) \<ge> 50 then ''MAYBE'' else ''EXCLUDE'')"
    using run_crawl_tech_block_rec [of score reasons ts]
    unfolding run_crawl_tech_block_fst .
  have n: "\<not> matches_exclusion name \<Longrightarrow>
        run_crawl_score name ts = run_crawl_tech_block 50 [] ts
        \<and> fst (run_crawl_score name ts) = min 100 (50 + tech_increments ts)
        \<and> fst (snd (run_crawl_score name ts)) =
            (if min 100 (50 + tech_increments ts) \<ge> 70 then ''CONTACT''
             else if min 100 (50 + tech_increments ts) \<ge> 50 then ''MAYBE'' else ''EXCLUDE'')
        \<and> fst (main_score name ts) = min 100 (50 + tech_increments ts)
        \<and> fst (snd (main_score name ts)) =
            (if min 100 (50 + tech_increments ts) \<ge> 70 then ''CONTACT''
             else if min 100 (50 + tech_increments ts) \<ge> 50 then ''MAYBE'' else ''EXCLUDE'')"
  proof -
    assume a: "\<not> matches_exclusion name"
    have 1: "run_crawl_score name ts = run_crawl_tech_block 50 [] ts"
      by (rule run_crawl_score_block [OF a])
    have 2: "fst (run_crawl_score name ts) = min 100 (50 + tech_increments ts)"
      unfolding 1 by (rule run_crawl_tech_block_fst)
    have 3: "fst (snd (run_crawl_score name ts)) =
            (if min 100 (50 + tech_increments ts) \<ge> 70 then ''CONTACT''
             else if min 100 (50 + tech_increments ts) \<ge> 50 then ''MAYBE'' else ''EXCLUDE'')"
      using run_crawl_score_rec [of name ts] unfolding 2 .
    have 4: "fst (main_score name ts) = min 100 (50 + tech_increments ts)"
      by (rule main_score_total [OF a])
    have 5: "fst (snd (main_score name ts)) =
            (if min 100 (50 + tech_increments ts) \<ge> 70 then ''CONTACT''
             else if min 100 (50 + tech_increments ts) \<ge> 50 then ''MAYBE'' else ''EXCLUDE'')"
      using main_score_rec [of name ts] unfolding 4 .
    from 1 2 3 4 5 show ?thesis by (intro conjI)
  qed
  have m: "matches_exclusion name \<Longrightarrow>
        fst (run_crawl_score name ts) = 0 \<and> fst (snd (run_crawl_score name ts)) = ''EXCLUDE''
        \<and> fst (main_score name ts) = 0 \<and> fst (snd (main_score name ts)) = ''EXCLUDE''"
  proof -
    assume "matches_exclusion name"
    then obtain keyword where k: "first_match name = Some keyword"
      using first_match_None [of name] by auto
    show ?thesis by (simp add: run_crawl_score_match [OF k] main_score_match [OF k])
  qed
  have s: "fst (heuristic_score name [] domain 0 default_stack
              (default_signals\<lparr>opportunity_score := s - 25\<rparr>)) = s"
    by (simp add: heuristic_score_fst default_stack_def default_signals_def)
  have h: "fst (snd (heuristic_score name [] domain 0 default_stack
              (default_signals\<lparr>opportunity_score := s - 25\<rparr>))) =
     (if s \<ge> 70 then ''CONTACT'' else if s \<ge> 50 then ''MAYBE'' else ''EXCLUDE'')"
    using heuristic_score_rec [of name "[]" domain 0 default_stack
        "default_signals\<lparr>opportunity_score := s - 25\<rparr>"]
    unfolding s .
  show ?thesis
    apply (intro conjI)
            apply (rule b1)
           apply (rule b2)
          apply (rule impI, erule n)
         apply (rule impI, erule m)
        apply (rule run_crawl_score_rec)
       apply (rule main_score_rec)
      apply (rule heuristic_score_rec)
     apply (rule s)
    apply (rule h)
    done
qed

lemma stack_increments:
  "tech_increments quiet_stack = 0"
  "tech_increments wordpress_only_stack = 20"
  "tech_increments server_only_stack = 15"
  by (simp_all add: tech_increments_def server_detected_def quiet_stack_def
        wordpress_only_stack_def server_only_stack_def default_stack_def)

theorem recommendation_thresholds_witness:
  "\<not> matches_exclusion ''Joe's Cafe''
   \<and> fst (run_crawl_score ''Joe's Cafe'' wordpress_only_stack) = 70
   \<and> fst (snd (run_crawl_score ''Joe's Cafe'' wordpress_only_stack)) = ''CONTACT''
   \<and> fst (run_crawl_score ''Joe's Cafe'' server_only_stack) = 65
   \<and> fst (snd (run_crawl_score ''Joe's Cafe'' server_only_stack)) = ''MAYBE''
   \<and> fst (main_score ''Joe's Cafe'' wordpress_only_stack) = 70
   \<and> fst (snd (main_score ''Joe's Cafe'' wordpress_only_stack)) = ''CONTACT''
   \<and> matches_exclusion ''Walmart Supercenter''
   \<and> fst (run_crawl_score ''Walmart Supercenter'' wordpress_only_stack) = 0
   \<and> fst (snd (run_crawl_score ''Walmart Supercenter'' wordpress_only_stack)) = ''EXCLUDE''
   \<and> fst (run_crawl_tech_block 70 [] quiet_stack) = 70
   \<and> fst (snd (run_crawl_tech_block 70 [] quiet_stack)) = ''CONTACT''
   \<and> fst (run_crawl_tech_block 69 [] quiet_stack) = 69
   \<and> fst (snd (run_crawl_tech_block 69 [] quiet_stack)) = ''MAYBE''
   \<and> fst (run_crawl_tech_block 49 [] quiet_stack) = 49
   \<and> fst (snd (run_crawl_tech_block 49 [] quiet_stack)) = ''EXCLUDE''
   \<and> fst (heuristic_score ''Joe's Cafe'' [] ''joescafe.com'' 0 default_stack
      (default_signals\<lparr>opportunity_score := 45\<rparr>)) = 70
   \<and> fst (snd (heuristic_score ''Joe's Cafe'' [] ''joescafe.com'' 0 default_stack
      (default_signals\<lparr>opportunity_score := 45\<rparr>))) = ''CONTACT''
   \<and> fst (heuristic_score ''Joe's Cafe'' [] ''joescafe.com'' 0 default_stack
      (default_signals\<lparr>opportunity_score := 44\<rparr>)) = 69
   \<and> fst (snd (heuristic_score ''Joe's Cafe'' [] ''joescafe.com'' 0 default_stack
      (default_signals\<lparr>opportunity_score := 44\<rparr>))) = ''MAYBE''
   \<and> fst (heuristic_score ''Joe's Cafe'' [] ''joescafe.com'' 0 default_stack
      (default_signals\<lparr>opportunity_score := 24\<rparr>)) = 49
   \<and> fst (snd (heuristic_score ''Joe's Cafe'' [] ''joescafe.com'' 0 default_stack
      (default_signals\<lparr>opportunity_score := 24\<rparr>))) = ''EXCLUDE''"
  using recommendation_thresholds [of 70 "[]" quiet_stack "''Joe's Cafe''" "[]"
        "''joescafe.com''" 0 default_signals 70]
    recommendation_thresholds [of 69 "[]" quiet_stack "''Joe's Cafe''" "[]"
        "''joescafe.com''" 0 default_signals 69]
    recommendation_thresholds [of 49 "[]" quiet_stack "''Joe's Cafe''" "[]"
        "''joescafe.com''" 0 default_signals 49]
    recommendation_thresholds [of 50 "[]" wordpress_only_stack "''Joe's Cafe''" "[]"
        "''joescafe.com''" 0 default_signals 0]
    recommendation_thresholds [of 50 "[]" server_only_stack "''Joe's Cafe''" "[]"
        "''joescafe.com''" 0 default_signals 0]
    recommendation_thresholds [of 50 "[]" wordpress_only_stack "''Walmart Supercenter''" "[]"
        "''walmart.com''" 0 default_signals 0]
    joes_cafe_not_excluded walmart_excluded
  by (simp add: stack_increments)




section \<open>Properties of the domain verifier\<close>

subsection \<open>The two loops as one\<close>

lemma attempt_loop_flat:
  "attempt_loop net key url as self w = flat_probe net key (map (Pair url) as) self w"
  by (induction as arbitrary: w) (auto simp: Let_def split: prod.splits http_outcome.splits)

lemma flat_probe_None_self:
  "flat_probe net key sched self w = (None, self', w') \<Longrightarrow> self' = self"
  by (induction sched arbitrary: w) (auto simp: Let_def split: prod.splits http_outcome.splits if_splits)

lemma flat_probe_Some_cache:
  "flat_probe net key sched self w = (Some r, self', w') \<Longrightarrow>
   self' = self\<lparr>cache := (cache self)(key \<mapsto> r)\<rparr>"
  by (induction sched arbitrary: w) (auto simp: Let_def split: prod.splits http_outcome.splits if_splits)

lemma flat_probe_append:
  "flat_probe net key (xs @ ys) self w =
     (case flat_probe net key xs self w of
        (Some r, self', w') \<Rightarrow> (Some r, self', w')
      | (None, self', w') \<Rightarrow> flat_probe net key ys self' w')"
  by (induction xs arbitrary: w) (auto simp: Let_def split: prod.splits http_outcome.splits option.splits)

lemma url_loop_flat:
  "url_loop net key urls self w =
     flat_probe net key (concat (map (\<lambda>url. map (Pair url) [0..<nat (retries self)]) urls)) self w"
proof (induction urls arbitrary: w)
  case Nil
  then show ?case by simp
next
  case (Cons url urls)
  show ?case
  proof (cases "flat_probe net key (map (Pair url) [0..<nat (retries self)]) self w")
    case (fields r self' w')
    show ?thesis
    proof (cases r)
      case None
      with fields have "self' = self" using flat_probe_None_self by blast
      with None fields Cons show ?thesis
        by (simp add: attempt_loop_flat flat_probe_append)
    next
      case (Some a)
      with fields show ?thesis
        by (simp add: attempt_loop_flat flat_probe_append)
    qed
  qed
qed

lemma flat_probe_char:
  "flat_probe net key sched self w =
     (let outs = outcomes net (clock w) (map fst sched);
          k = length (takeWhile unanswered outs)
      in if k < length sched
         then (Some (answer (outs ! k)),
               self\<lparr>cache := (cache self)(key \<mapsto> answer (outs ! k))\<rparr>,
               w\<lparr>clock := clock w + k + 1,
                 trace := trace w @ concat (map (probe_events (retries self)) (take k (zip sched outs)))
                            @ [Head (fst (sched ! k))]\<rparr>)
         else (None, self,
               w\<lparr>clock := clock w + k,
                 trace := trace w @ concat (map (probe_events (retries self)) (zip sched outs))\<rparr>))"
proof (induction sched arbitrary: w)
  case Nil
  then show ?case by simp
next
  case (Cons p sched)
  obtain url attempt where p: "p = (url, attempt)" by (cases p)
  show ?case
  proof (cases "requests_head net (clock w) url")
    case (Response code srv)
    then show ?thesis by (simp add: p do_head_def Let_def)
  next
    case Timeout
    then show ?thesis
      by (simp add: p do_head_def do_sleep_def Cons.IH Let_def)
  next
    case ConnectionError
    then show ?thesis
      by (simp add: p do_head_def Cons.IH Let_def)
  next
    case OtherError
    then show ?thesis
      by (simp add: p do_head_def Cons.IH Let_def)
  qed
qed

lemma url_loop_char:
  "url_loop net key [''https://'' @ domain, ''http://'' @ domain] self w =
     flat_probe net key (probe_schedule (retries self) domain) self w"
  by (simp add: url_loop_flat probe_schedule_def)

lemma domain_responds_to_http_flat:
  assumes "domain \<noteq> []" and "cache self (''http_check:'' @ domain) = None"
  shows "domain_responds_to_http net domain self w =
     (case flat_probe net (''http_check:'' @ domain) (probe_schedule (retries self) domain) self w of
        (Some result, self', w') \<Rightarrow> (result, self', w')
      | (None, self', w') \<Rightarrow>
          ((False, None, ''No HTTP response''),
           self'\<lparr>cache := (cache self')(''http_check:'' @ domain \<mapsto> (False, None, ''No HTTP response''))\<rparr>,
           w'))"
  unfolding domain_responds_to_http_def url_loop_char Let_def
  using assms by simp

lemma length_outcomes [simp]: "length (outcomes net c urls) = length urls"
  by (induction urls arbitrary: c) auto

lemma domain_responds_to_http_cached:
  assumes "domain_responds_to_http net domain self w = (r1, self1, w1)" and "domain \<noteq> []"
  shows "cache self1 (''http_check:'' @ domain) = Some r1"
proof (cases "cache self (''http_check:'' @ domain)")
  case (Some cached)
  with assms show ?thesis by (auto simp: domain_responds_to_http_def)
next
  case None
  show ?thesis
  proof (cases "flat_probe net (''http_check:'' @ domain) (probe_schedule (retries self) domain) self w")
    case (fields r self' w')
    show ?thesis
    proof (cases r)
      case None
      with fields assms show ?thesis
        unfolding domain_responds_to_http_flat [OF assms(2) \<open>cache self (''http_check:'' @ domain) = None\<close>]
        by auto
    next
      case (Some a)
      with fields have "self' = self\<lparr>cache := (cache self)(''http_check:'' @ domain \<mapsto> a)\<rparr>"
        using flat_probe_Some_cache by blast
      with Some fields assms show ?thesis
        unfolding domain_responds_to_http_flat [OF assms(2) \<open>cache self (''http_check:'' @ domain) = None\<close>]
        by auto
    qed
  qed
qed

subsection \<open>The cache\<close>

text \<open>
  Claim C7. After a call of \<open>domain_responds_to_http\<close> has returned, a second call for the
  same domain on the same verifier returns the identical tuple and leaves the verifier and
  the world as they are: no request is made (the second call may even face another
  network). For a non-empty domain the tuple is the cache entry under
  \<open>"http_check:" + domain\<close>.
\<close>

theorem http_check_cached:
  assumes "domain_responds_to_http net domain self w = (r1, self1, w1)"
  shows "domain_responds_to_http net' domain self1 w1 = (r1, self1, w1)
         \<and> (domain \<noteq> [] \<longrightarrow> cache self1 (''http_check:'' @ domain) = Some r1)"
proof (cases "domain = []")
  case True
  with assms show ?thesis by (auto simp: domain_responds_to_http_def)
next
  case False
  with domain_responds_to_http_cached [OF assms False] show ?thesis
    by (simp add: domain_responds_to_http_def)
qed

lemma first_call_refusing_once:
  "fst (domain_responds_to_http refusing_once ''example.com'' new_DomainVerifier world0)
     = (True, Some 200, ''nginx'')"
  "trace (snd (snd (domain_responds_to_http refusing_once ''example.com'' new_DomainVerifier world0)))
     = [Head ''https://example.com'', Head ''https://example.com'']
   \<and> Head ''http://example.com''
       \<notin> set (trace (snd (snd (domain_responds_to_http refusing_once ''example.com''
                                  new_DomainVerifier world0))))"
  by code_simp+

theorem http_check_cached_witness:
  "fst (domain_responds_to_http refusing_once ''example.com'' new_DomainVerifier world0)
     = (True, Some 200, ''nginx'')
   \<and> fst (domain_responds_to_http dead_net ''example.com''
        (fst (snd (domain_responds_to_http refusing_once ''example.com'' new_DomainVerifier world0)))
        (snd (snd (domain_responds_to_http refusing_once ''example.com'' new_DomainVerifier world0))))
     = (True, Some 200, ''nginx'')
   \<and> trace (snd (snd (domain_responds_to_http dead_net ''example.com''
        (fst (snd (domain_responds_to_http refusing_once ''example.com'' new_DomainVerifier world0)))
        (snd (snd (domain_responds_to_http refusing_once ''example.com'' new_DomainVerifier world0))))))
     = [Head ''https://example.com'', Head ''https://example.com'']"
proof -
  let ?first = "domain_responds_to_http refusing_once ''example.com'' new_DomainVerifier world0"
  have c: "?first = (fst ?first, fst (snd ?first), snd (snd ?first))" by simp
  show ?thesis
    using http_check_cached [OF c, of dead_net] first_call_refusing_once by simp
qed

subsection \<open>The order of the requests\<close>

text \<open>
  Claim C5, amended. On a cache miss for a non-empty domain, \<open>domain_responds_to_http\<close>
  makes the requests of the schedule in order: \<open>https://domain\<close> \<open>retries\<close> times, then
  \<open>http://domain\<close> \<open>retries\<close> times. It stops at the first request that is answered and
  returns its status code and \<open>Server\<close> header (\<open>Unknown\<close> if absent). After an unanswered
  request it goes on with the next request of the schedule, that is the next attempt on
  the same URL, or the next scheme after the last attempt: at once after a connection
  error or another exception, after a sleep of 0.5 seconds after a timeout that was not
  the last attempt on its URL. If no request is answered it returns
  \<open>(False, None, "No HTTP response")\<close>. Either result is stored in the cache.
\<close>

theorem http_probe_schedule:
  assumes "domain \<noteq> []" and "cache self (''http_check:'' @ domain) = None"
  shows "domain_responds_to_http net domain self w =
     (let sched = probe_schedule (retries self) domain;
          outs = outcomes net (clock w) (map fst sched);
          k = length (takeWhile unanswered outs);
          result = (if k < length sched then answer (outs ! k)
                    else (False, None, ''No HTTP response''))
      in (result,
          self\<lparr>cache := (cache self)(''http_check:'' @ domain \<mapsto> result)\<rparr>,
          w\<lparr>clock := clock w + (if k < length sched then k + 1 else k),
            trace := trace w
              @ concat (map (probe_events (retries self)) (take k (zip sched outs)))
              @ (if k < length sched then [Head (fst (sched ! k))] else [])\<rparr>))"
  unfolding domain_responds_to_http_flat [OF assms] flat_probe_char
  by (simp add: Let_def)

theorem http_probe_schedule_witness:
  "''example.com'' \<noteq> []
   \<and> cache new_DomainVerifier (''http_check:'' @ ''example.com'') = None
   \<and> fst (domain_responds_to_http slow_https ''example.com'' new_DomainVerifier world0)
       = (True, Some 301, ''Unknown'')
   \<and> trace (snd (snd (domain_responds_to_http slow_https ''example.com'' new_DomainVerifier world0)))
       = [Head ''https://example.com'', Sleep, Head ''https://example.com'',
          Head ''http://example.com'', Head ''http://example.com'']
   \<and> fst (domain_responds_to_http dead_net ''example.com'' new_DomainVerifier world0)
       = (False, None, ''No HTTP response'')
   \<and> trace (snd (snd (domain_responds_to_http dead_net ''example.com'' new_DomainVerifier world0)))
       = [Head ''https://example.com'', Head ''https://example.com'',
          Head ''http://example.com'', Head ''http://example.com'']"
proof -
  have h1: "''example.com'' \<noteq> []" by simp
  have h2: "cache new_DomainVerifier (''http_check:'' @ ''example.com'') = None"
    by (simp add: new_DomainVerifier_def)
  have r: "retries new_DomainVerifier = 2" by (simp add: new_DomainVerifier_def)
  have s: "probe_schedule 2 ''example.com'' =
     [(''https://example.com'', 0), (''https://example.com'', 1),
      (''http://example.com'', 0), (''http://example.com'', 1)]"
    by (simp add: probe_schedule_def upt_conv_Cons)
  show ?thesis
    using http_probe_schedule [OF h1 h2, of slow_https world0]
      http_probe_schedule [OF h1 h2, of dead_net world0] h1 h2
    by (simp add: r s Let_def slow_https_def dead_net_def world0_def)
qed

text \<open>
  Claim C5, as stated, fails on the connection error: when the first request to
  \<open>https://example.com\<close> is refused, the second request goes to \<open>https://example.com\<close>
  again, is answered, and \<open>http://example.com\<close> is never tried.
\<close>

theorem connection_error_counterexample:
  "fst (domain_responds_to_http refusing_once ''example.com'' new_DomainVerifier world0)
     = (True, Some 200, ''nginx'')
   \<and> trace (snd (snd (domain_responds_to_http refusing_once ''example.com''
                        new_DomainVerifier world0)))
     = [Head ''https://example.com'', Head ''https://example.com'']
   \<and> Head ''http://example.com''
       \<notin> set (trace (snd (snd (domain_responds_to_http refusing_once ''example.com''
                                  new_DomainVerifier world0))))"
  by code_simp

subsection \<open>verify\_domain\<close>

lemma check_http_props:
  assumes "check_http net require_http clean result self w = (result', self', w')"
    and "\<not> verified result" and "\<not> http_responds result" and "error result = None"
  shows "(verified result' \<longleftrightarrow> require_http \<and> http_responds result')
       \<and> (verified result' \<longrightarrow> error result' = None)
       \<and> (require_http \<and> \<not> http_responds result' \<longrightarrow> error result' \<noteq> None)
       \<and> (\<not> require_http \<longrightarrow> result' = result \<and> self' = self \<and> w' = w)
       \<and> dns_valid result' = dns_valid result"
  using assms
  by (auto simp: check_http_def Let_def split: if_splits prod.splits)

lemma verify_domain_clean:
  assumes "d \<noteq> []" and "get_domain_from_url net (Some d) = Some clean" and "clean \<noteq> []"
  shows "verify_domain net (Some d) require_dns require_http self w =
     (let result = \<lparr>verified = False, vr_domain = Some clean, dns_valid = False,
                     dns_ip = None, http_responds = False, http_status = None,
                     vr_server = None, error = None\<rparr>
      in if require_dns then
           case domain_has_dns net clean w of
             ((dns_ok, dns_info), w') \<Rightarrow>
               if dns_ok then
                 check_http net require_http clean
                   (result\<lparr>dns_valid := True, dns_ip := Some dns_info\<rparr>) self w'
               else (result\<lparr>error := Some dns_info\<rparr>, self, w')
         else check_http net require_http clean result self w)"
  using assms by (simp add: verify_domain_def Let_def split: prod.splits)

lemma verify_domain_unclean:
  assumes "domain = None \<or> domain = Some []
           \<or> get_domain_from_url net domain = None \<or> get_domain_from_url net domain = Some []"
  shows "verify_domain net domain require_dns require_http self w =
     (\<lparr>verified = False, vr_domain = domain, dns_valid = False,
       dns_ip = None, http_responds = False, http_status = None, vr_server = None,
       error = Some (if domain = None \<or> domain = Some [] then ''Empty domain''
                     else ''Invalid domain format'')\<rparr>, self, w)"
  using assms by (auto simp: verify_domain_def Let_def split: option.splits)

lemma domain_has_dns_world:
  "clean \<noteq> [] \<Longrightarrow> snd (domain_has_dns net clean w) = snd (do_resolve net clean w)"
  by (auto simp: domain_has_dns_def split: prod.splits dns_outcome.splits)

lemma verify_domain_fields:
  assumes "verify_domain net domain require_dns require_http self w = (result, self', w')"
  shows "(verified result \<longleftrightarrow>
            require_http \<and> http_responds result \<and> (require_dns \<longrightarrow> dns_valid result))
       \<and> (verified result \<longrightarrow> error result = None)
       \<and> (require_dns \<and> \<not> dns_valid result \<longrightarrow>
            error result \<noteq> None \<and> \<not> http_responds result \<and> self' = self
            \<and> (w' = w \<or> (\<exists>clean_domain. w' = snd (do_resolve net clean_domain w))))
       \<and> (require_http \<and> \<not> http_responds result \<longrightarrow> error result \<noteq> None)
       \<and> (require_dns \<and> require_http \<longrightarrow>
            (verified result \<longleftrightarrow> dns_valid result \<and> http_responds result))"
proof (cases "domain = None \<or> domain = Some []
           \<or> get_domain_from_url net domain = None \<or> get_domain_from_url net domain = Some []")
  case True
  from assms show ?thesis unfolding verify_domain_unclean [OF True] by auto
next
  case False
  then obtain d clean where d: "domain = Some d" "d \<noteq> []"
    and c: "get_domain_from_url net (Some d) = Some clean" "clean \<noteq> []"
    by auto
  let ?r0 = "\<lparr>verified = False, vr_domain = Some clean, dns_valid = False,
                     dns_ip = None, http_responds = False, http_status = None,
                     vr_server = None, error = None\<rparr>"
  note v = assms [unfolded d(1) verify_domain_clean [OF d(2) c] Let_def]
  show ?thesis
  proof (cases require_dns)
    case False
    with v have "check_http net require_http clean ?r0 self w = (result, self', w')"
      by simp
    from check_http_props [OF this] False show ?thesis by auto
  next
    case True
    obtain dns_ok dns_info w1 where
      dns: "domain_has_dns net clean w = ((dns_ok, dns_info), w1)"
      by (metis prod.collapse)
    have w1: "w1 = snd (do_resolve net clean w)"
      using domain_has_dns_world [OF c(2), of net w] dns by simp
    show ?thesis
    proof (cases dns_ok)
      case False
      with True v dns have "result = ?r0\<lparr>error := Some dns_info\<rparr>" "self' = self" "w' = w1"
        by auto
      with w1 True show ?thesis by auto
    next
      case ok: True
      with True v dns have
        "check_http net require_http clean (?r0\<lparr>dns_valid := True, dns_ip := Some dns_info\<rparr>)
           self w1 = (result, self', w')"
        by simp
      from check_http_props [OF this] True show ?thesis by auto
    qed
  qed
qed

lemma domain_has_dns_snd:
  "clean \<noteq> [] \<Longrightarrow>
   snd (domain_has_dns net clean w) =
     w\<lparr>clock := Suc (clock w), trace := trace w @ [Resolve clean]\<rparr>"
  by (simp add: domain_has_dns_world do_resolve_def)

lemma verify_domain_outcomes:
  assumes "verify_domain net (Some d) require_dns require_http self w = (result, self', w')"
    and "d \<noteq> []" and "get_domain_from_url net (Some d) = Some clean" and "clean \<noteq> []"
  shows "(let dns = domain_has_dns net clean w;
             dns_ok = fst (fst dns);
             w1 = (if require_dns then snd dns else w);
             http = domain_responds_to_http net clean self w1;
             http_ok = fst (fst http)
         in vr_domain result = Some clean
            \<and> dns_valid result = (require_dns \<and> dns_ok)
            \<and> (require_dns \<and> \<not> dns_ok \<longrightarrow>
                 \<not> verified result \<and> \<not> http_responds result
                 \<and> error result = Some (snd (fst dns))
                 \<and> self' = self \<and> w' = snd dns)
            \<and> ((require_dns \<longrightarrow> dns_ok) \<and> require_http \<longrightarrow>
                 http_responds result = http_ok \<and> verified result = http_ok
                 \<and> (http_ok \<longrightarrow> error result = None)
                 \<and> (\<not> http_ok \<longrightarrow> error result = Some (snd (snd (fst http))))
                 \<and> self' = fst (snd http) \<and> w' = snd (snd http))
            \<and> ((require_dns \<longrightarrow> dns_ok) \<and> \<not> require_http \<longrightarrow>
                 \<not> verified result \<and> \<not> http_responds result \<and> error result = None
                 \<and> self' = self \<and> w' = w1)
            \<and> (verified result \<longleftrightarrow>
                 require_http \<and> (require_dns \<longrightarrow> dns_ok) \<and> http_ok))"
  using assms(1) unfolding verify_domain_clean [OF assms(2-4)]
  by (auto simp: check_http_def Let_def split: prod.splits if_splits)

text \<open>
  Claim C2, amended. \<open>verify_domain\<close> sets \<open>verified\<close> exactly when the HTTP check is
  required and every required check passes: \<open>domain_responds_to_http\<close> succeeds on the
  clean domain, and \<open>domain_has_dns\<close> succeeds too if the DNS check is required; without
  \<open>require_http\<close> the result is never verified. An empty candidate or one without a clean
  domain gives an unverified result with an error and no network call. When the DNS check
  is required and fails, \<open>dns_valid\<close> is false, the error is the lookup's message and the
  function returns without an HTTP request: the verifier is unchanged and the world has
  seen the one lookup only. When the HTTP check is required and reached, \<open>http_responds\<close>
  and \<open>verified\<close> are its outcome and a failure sets the error to its message. A verified
  result carries no error. Under the defaults (both flags true) \<open>verified\<close> holds iff
  \<open>dns_valid\<close> and \<open>http_responds\<close> both hold.
\<close>

theorem verify_domain_verified:
  assumes "verify_domain net domain require_dns require_http self w = (result, self', w')"
  shows "(domain = None \<or> domain = Some []
          \<or> get_domain_from_url net domain = None \<or> get_domain_from_url net domain = Some []
          \<longrightarrow> \<not> verified result \<and> \<not> dns_valid result \<and> \<not> http_responds result
              \<and> error result =
                  Some (if domain = None \<or> domain = Some [] then ''Empty domain''
                        else ''Invalid domain format'')
              \<and> self' = self \<and> w' = w)
       \<and> (\<forall>clean. domain \<noteq> None \<and> domain \<noteq> Some []
              \<and> get_domain_from_url net domain = Some clean \<and> clean \<noteq> [] \<longrightarrow>
            (let dns = domain_has_dns net clean w;
                 dns_ok = fst (fst dns);
                 w1 = (if require_dns then snd dns else w);
                 http = domain_responds_to_http net clean self w1;
                 http_ok = fst (fst http)
             in vr_domain result = Some clean
                \<and> dns_valid result = (require_dns \<and> dns_ok)
                \<and> (require_dns \<and> \<not> dns_ok \<longrightarrow>
                     \<not> verified result \<and> \<not> http_responds result
                     \<and> error result = Some (snd (fst dns))
                     \<and> self' = self \<and> w' = snd dns)
                \<and> ((require_dns \<longrightarrow> dns_ok) \<and> require_http \<longrightarrow>
                     http_responds result = http_ok \<and> verified result = http_ok
                     \<and> (http_ok \<longrightarrow> error result = None)
                     \<and> (\<not> http_ok \<longrightarrow> error result = Some (snd (snd (fst http))))
                     \<and> self' = fst (snd http) \<and> w' = snd (snd http))
                \<and> ((require_dns \<longrightarrow> dns_ok) \<and> \<not> require_http \<longrightarrow>
                     \<not> verified result \<and> \<not> http_responds result \<and> error result = None
                     \<and> self' = self \<and> w' = w1)
                \<and> (verified result \<longleftrightarrow>
                     require_http \<and> (require_dns \<longrightarrow> dns_ok) \<and> http_ok))
            \<and> snd (domain_has_dns net clean w) =
                w\<lparr>clock := Suc (clock w), trace := trace w @ [Resolve clean]\<rparr>)
       \<and> (verified result \<longleftrightarrow>
            require_http \<and> http_responds result \<and> (require_dns \<longrightarrow> dns_valid result))
       \<and> (verified result \<longrightarrow> error result = None)
       \<and> (require_dns \<and> \<not> dns_valid result \<longrightarrow>
            error result \<noteq> None \<and> \<not> http_responds result \<and> self' = self
            \<and> (w' = w \<or> (\<exists>clean_domain. w' = snd (do_resolve net clean_domain w))))
       \<and> (require_http \<and> \<not> http_responds result \<longrightarrow> error result \<noteq> None)
       \<and> (require_dns \<and> require_http \<longrightarrow>
            (verified result \<longleftrightarrow> dns_valid result \<and> http_responds result))"
proof -
  have u: "domain = None \<or> domain = Some []
          \<or> get_domain_from_url net domain = None \<or> get_domain_from_url net domain = Some []
          \<longrightarrow> \<not> verified result \<and> \<not> dns_valid result \<and> \<not> http_responds result
              \<and> error result =
                  Some (if domain = None \<or> domain = Some [] then ''Empty domain''
                        else ''Invalid domain format'')
              \<and> self' = self \<and> w' = w"
  proof
    assume a: "domain = None \<or> domain = Some []
          \<or> get_domain_from_url net domain = None \<or> get_domain_from_url net domain = Some []"
    from assms show "\<not> verified result \<and> \<not> dns_valid result \<and> \<not> http_responds result
              \<and> error result =
                  Some (if domain = None \<or> domain = Some [] then ''Empty domain''
                        else ''Invalid domain format'')
              \<and> self' = self \<and> w' = w"
      unfolding verify_domain_unclean [OF a] by auto
  qed
  have c: "\<forall>clean. domain \<noteq> None \<and> domain \<noteq> Some []
              \<and> get_domain_from_url net domain = Some clean \<and> clean \<noteq> [] \<longrightarrow>
            (let dns = domain_has_dns net clean w;
                 dns_ok = fst (fst dns);
                 w1 = (if require_dns then snd dns else w);
                 http = domain_responds_to_http net clean self w1;
                 http_ok = fst (fst http)
             in vr_domain result = Some clean
                \<and> dns_valid result = (require_dns \<and> dns_ok)
                \<and> (require_dns \<and> \<not> dns_ok \<longrightarrow>
                     \<not> verified result \<and> \<not> http_responds result
                     \<and> error result = Some (snd (fst dns))
                     \<and> self' = self \<and> w' = snd dns)
                \<and> ((require_dns \<longrightarrow> dns_ok) \<and> require_http \<longrightarrow>
                     http_responds result = http_ok \<and> verified result = http_ok
                     \<and> (http_ok \<longrightarrow> error result = None)
                     \<and> (\<not> http_ok \<longrightarrow> error result = Some (snd (snd (fst http))))
                     \<and> self' = fst (snd http) \<and> w' = snd (snd http))
                \<and> ((require_dns \<longrightarrow> dns_ok) \<and> \<not> require_http \<longrightarrow>
                     \<not> verified result \<and> \<not> http_responds result \<and> error result = None
                     \<and> self' = self \<and> w' = w1)
                \<and> (verified result \<longleftrightarrow>
                     require_http \<and> (require_dns \<longrightarrow> dns_ok) \<and> http_ok))
            \<and> snd (domain_has_dns net clean w) =
                w\<lparr>clock := Suc (clock w), trace := trace w @ [Resolve clean]\<rparr>"
  proof (intro allI impI)
    fix clean
    assume a: "domain \<noteq> None \<and> domain \<noteq> Some []
              \<and> get_domain_from_url net domain = Some clean \<and> clean \<noteq> []"
    then obtain d where d: "domain = Some d" "d \<noteq> []" by auto
    from a d have g: "get_domain_from_url net (Some d) = Some clean" and cl: "clean \<noteq> []"
      by simp_all
    from verify_domain_outcomes [OF assms [unfolded d(1)] d(2) g cl]
      domain_has_dns_snd [OF cl, of net w]
    show "(let dns = domain_has_dns net clean w;
                 dns_ok = fst (fst dns);
                 w1 = (if require_dns then snd dns else w);
                 http = domain_responds_to_http net clean self w1;
                 http_ok = fst (fst http)
             in vr_domain result = Some clean
                \<and> dns_valid result = (require_dns \<and> dns_ok)
                \<and> (require_dns \<and> \<not> dns_ok \<longrightarrow>
                     \<not> verified result \<and> \<not> http_responds result
                     \<and> error result = Some (snd (fst dns))
                     \<and> self' = self \<and> w' = snd dns)
                \<and> ((require_dns \<longrightarrow> dns_ok) \<and> require_http \<longrightarrow>
                     http_responds result = http_ok \<and> verified result = http_ok
                     \<and> (http_ok \<longrightarrow> error result = None)
                     \<and> (\<not> http_ok \<longrightarrow> error result = Some (snd (snd (fst http))))
                     \<and> self' = fst (snd http) \<and> w' = snd (snd http))
                \<and> ((require_dns \<longrightarrow> dns_ok) \<and> \<not> require_http \<longrightarrow>
                     \<not> verified result \<and> \<not> http_responds result \<and> error result = None
                     \<and> self' = self \<and> w' = w1)
                \<and> (verified result \<longleftrightarrow>
                     require_http \<and> (require_dns \<longrightarrow> dns_ok) \<and> http_ok))
            \<and> snd (domain_has_dns net clean w) =
                w\<lparr>clock := Suc (clock w), trace := trace w @ [Resolve clean]\<rparr>"
      by (rule conjI)
  qed
  from u c verify_domain_fields [OF assms] show ?thesis by (intro conjI) blast+
qed

text \<open>
  Claim C2, as stated, fails when only the DNS check is required: on a network where
  \<open>example.com\<close> resolves, \<open>verify_domain\<close> with \<open>require_dns=True\<close>, \<open>require_http=False\<close>
  passes its only required check (\<open>dns_valid\<close> is true, no error) and returns
  \<open>verified = False\<close>.
\<close>

theorem dns_only_counterexample:
  "fst (verify_domain live_net (Some ''example.com'') True False new_DomainVerifier world0) =
     \<lparr>verified = False, vr_domain = Some ''example.com'', dns_valid = True,
      dns_ip = Some ''93.184.216.34'', http_responds = False, http_status = None,
      vr_server = None, error = None\<rparr>"
  by code_simp

lemma live_defaults:
  "fst (verify_domain live_net (Some ''example.com'') True True new_DomainVerifier world0) =
     \<lparr>verified = True, vr_domain = Some ''example.com'', dns_valid = True,
      dns_ip = Some ''93.184.216.34'', http_responds = True, http_status = Some 200,
      vr_server = Some ''nginx'', error = None\<rparr>"
  "trace (snd (snd (verify_domain live_net (Some ''example.com'') True True new_DomainVerifier world0))) =
     [Resolve ''example.com'', Head ''https://example.com'']"
  by code_simp+

lemma dead_defaults:
  "fst (verify_domain dead_net (Some ''http://example.com/about'') True True new_DomainVerifier world0) =
     \<lparr>verified = False, vr_domain = Some ''example.com'', dns_valid = False,
      dns_ip = None, http_responds = False, http_status = None,
      vr_server = None, error = Some ''DNS resolution failed''\<rparr>"
  "trace (snd (snd (verify_domain dead_net (Some ''http://example.com/about'') True True new_DomainVerifier world0))) =
     [Resolve ''example.com'']"
  by code_simp+

theorem verify_domain_verified_witness:
  "verified (fst (verify_domain live_net (Some ''example.com'') True True
                    new_DomainVerifier world0))
   \<and> dns_valid (fst (verify_domain live_net (Some ''example.com'') True True
                       new_DomainVerifier world0))
   \<and> http_responds (fst (verify_domain live_net (Some ''example.com'') True True
                           new_DomainVerifier world0))
   \<and> error (fst (verify_domain live_net (Some ''example.com'') True True
                   new_DomainVerifier world0)) = None
   \<and> get_domain_from_url live_net (Some ''example.com'') = Some ''example.com''
   \<and> fst (fst (domain_has_dns live_net ''example.com'' world0))
   \<and> fst (fst (domain_responds_to_http live_net ''example.com'' new_DomainVerifier
                  (snd (domain_has_dns live_net ''example.com'' world0))))
   \<and> get_domain_from_url dead_net (Some ''http://example.com/about'') = Some ''example.com''
   \<and> \<not> fst (fst (domain_has_dns dead_net ''example.com'' world0))
   \<and> \<not> verified (fst (verify_domain dead_net (Some ''http://example.com/about'') True True
                        new_DomainVerifier world0))
   \<and> error (fst (verify_domain dead_net (Some ''http://example.com/about'') True True
                   new_DomainVerifier world0)) = Some ''DNS resolution failed''
   \<and> trace (snd (snd (verify_domain dead_net (Some ''http://example.com/about'') True True
                        new_DomainVerifier world0))) = [Resolve ''example.com'']"
proof -
  let ?live = "verify_domain live_net (Some ''example.com'') True True new_DomainVerifier world0"
  let ?dead = "verify_domain dead_net (Some ''http://example.com/about'') True True
                 new_DomainVerifier world0"
  have l: "?live = (fst ?live, fst (snd ?live), snd (snd ?live))" by simp
  have d: "?dead = (fst ?dead, fst (snd ?dead), snd (snd ?dead))" by simp
  have g: "get_domain_from_url live_net (Some ''example.com'') = Some ''example.com''"
    "fst (fst (domain_has_dns live_net ''example.com'' world0))"
    "fst (fst (domain_responds_to_http live_net ''example.com'' new_DomainVerifier
                  (snd (domain_has_dns live_net ''example.com'' world0))))"
    "get_domain_from_url dead_net (Some ''http://example.com/about'') = Some ''example.com''"
    "\<not> fst (fst (domain_has_dns dead_net ''example.com'' world0))"
    by code_simp+
  have lv: "verified (fst ?live)"
    using verify_domain_verified [OF l] g(1-3) by (simp add: Let_def)
  have dv: "\<not> verified (fst ?dead)"
    using verify_domain_verified [OF d] g(4,5) by (simp add: Let_def)
  show ?thesis
    using lv dv g live_defaults dead_defaults by simp
qed

section \<open>Properties of the domain-guessing fallback\<close>

lemma tld_loop_flat:
  "tld_loop net pattern tlds self w =
     first_verified net (map (\<lambda>tld. pattern @ ''.'' @ tld) tlds) self w"
  by (induction tlds arbitrary: self w) (auto split: prod.splits)

lemma first_verified_append:
  "first_verified net (xs @ ys) self w =
     (case first_verified net xs self w of
        (Some result, self', w') \<Rightarrow> (Some result, self', w')
      | (None, self', w') \<Rightarrow> first_verified net ys self' w')"
  by (induction xs arbitrary: self w) (auto split: prod.splits option.splits)

lemma pattern_loop_flat:
  "pattern_loop net patterns self w = first_verified net (candidate_domains patterns) self w"
proof (induction patterns arbitrary: self w)
  case Nil
  then show ?case by (simp add: candidate_domains_def)
next
  case (Cons pattern patterns)
  have "candidate_domains (pattern # patterns) =
          map (\<lambda>tld. pattern @ ''.'' @ tld) TLDS @ candidate_domains patterns"
    by (simp add: candidate_domains_def)
  then show ?case
    by (simp add: tld_loop_flat first_verified_append Cons.IH split: prod.splits option.splits)
qed

lemma first_verified_Some:
  "first_verified net domains self w = (Some result, self', w') \<Longrightarrow> verified result"
  by (induction domains arbitrary: self w) (auto split: prod.splits if_splits)

lemma guess_patterns_words:
  "py_split (lower name) \<noteq> [] \<Longrightarrow>
   guess_patterns name =
     Inr [replace_space [] (lower name), replace_space ''-'' (lower name),
          hd (py_split (lower name))]"
  by (auto simp: guess_patterns_def split: list.splits)

text \<open>
  Claim C8, amended. The fallback tries the guessed domains pattern-major, TLD-minor: the
  two loops are one pass over the list of candidates, in which each pattern is followed
  by \<open>.com\<close>, \<open>.net\<close>, \<open>.org\<close>, \<open>.biz\<close> in this order, and the pass stops at the first
  candidate that verifies. For a business without website whose name has a word, the
  patterns are the lower-cased name with the spaces removed, the lower-cased name with
  each space replaced by a hyphen, and the first word of the lower-cased name; nothing
  else is removed from the name, so an apostrophe stays in the guessed domain. A name
  without a word raises \<open>IndexError\<close>.
\<close>

theorem guess_order:
  "pattern_loop net patterns self w = first_verified net (candidate_domains patterns) self w
   \<and> candidate_domains [a, b, c] =
       [a @ ''.com'', a @ ''.net'', a @ ''.org'', a @ ''.biz'',
        b @ ''.com'', b @ ''.net'', b @ ''.org'', b @ ''.biz'',
        c @ ''.com'', c @ ''.net'', c @ ''.org'', c @ ''.biz'']
   \<and> (py_split (lower name) \<noteq> [] \<longrightarrow>
        verify_business net name [] self w =
          Inr (first_verified net
                 (candidate_domains
                    [replace_space [] (lower name), replace_space ''-'' (lower name),
                     hd (py_split (lower name))])
                 self w)
        \<and> verify_website_from_company net name None w =
          Inr (case first_verified net
                 (candidate_domains
                    [replace_space [] (lower name), replace_space ''-'' (lower name),
                     hd (py_split (lower name))])
                 new_DomainVerifier w of
                 (Some result, self', w') \<Rightarrow> (Verified_Site result, w')
               | (None, self', w') \<Rightarrow>
                   (Not_Verified (''Could not verify domain for '' @ name), w')))
   \<and> (py_split (lower name) = [] \<longrightarrow>
        verify_business net name [] self w = Inl IndexError
        \<and> verify_website_from_company net name None w = Inl IndexError)
   \<and> (first_verified net domains self w = (Some result, self', w') \<longrightarrow> verified result)"
proof -
  have c: "candidate_domains [a, b, c] =
       [a @ ''.com'', a @ ''.net'', a @ ''.org'', a @ ''.biz'',
        b @ ''.com'', b @ ''.net'', b @ ''.org'', b @ ''.biz'',
        c @ ''.com'', c @ ''.net'', c @ ''.org'', c @ ''.biz'']"
    by (simp add: candidate_domains_def TLDS_def)
  have v: "py_split (lower name) \<noteq> [] \<Longrightarrow>
        verify_business net name [] self w =
          Inr (first_verified net
                 (candidate_domains
                    [replace_space [] (lower name), replace_space ''-'' (lower name),
                     hd (py_split (lower name))])
                 self w)"
    by (simp add: verify_business_def guess_patterns_words pattern_loop_flat)
  have u: "py_split (lower name) \<noteq> [] \<Longrightarrow>
        verify_website_from_company net name None w =
          Inr (case first_verified net
                 (candidate_domains
                    [replace_space [] (lower name), replace_space ''-'' (lower name),
                     hd (py_split (lower name))])
                 new_DomainVerifier w of
                 (Some result, self', w') \<Rightarrow> (Verified_Site result, w')
               | (None, self', w') \<Rightarrow>
                   (Not_Verified (''Could not verify domain for '' @ name), w'))"
    by (simp add: verify_website_from_company_def guess_patterns_words pattern_loop_flat Let_def
          split: prod.splits option.splits)
  have e: "py_split (lower name) = [] \<Longrightarrow>
        verify_business net name [] self w = Inl IndexError
        \<and> verify_website_from_company net name None w = Inl IndexError"
    by (simp add: verify_business_def verify_website_from_company_def guess_patterns_def Let_def)
  show ?thesis
    using c v u e pattern_loop_flat [of net patterns self w]
      first_verified_Some [of net domains self w result self' w']
    by blast
qed

lemma joes_cafe_patterns: "guess_patterns ''Joe's Cafe'' = Inr [''joe'scafe'', ''joe's-cafe'', ''joe's'']"
  by code_simp

lemma simple_urlparse_plain:
  assumes "\<not> prefix ''http://'' d" "\<not> prefix ''https://'' d" "\<not> prefix ''//'' d"
    and "CHR ''/'' \<notin> set d"
  shows "simple_urlparse (''http://'' @ d) = Some (d, [])"
proof -
  have "takeWhile (\<lambda>c. c \<noteq> CHR ''/'') d = d" "dropWhile (\<lambda>c. c \<noteq> CHR ''/'') d = []"
    using assms(4) by (auto simp: takeWhile_eq_all_conv dropWhile_eq_Nil_conv)
  then show ?thesis by (simp add: simple_urlparse_def)
qed

lemma verify_domain_unresolved:
  assumes "urlparse net = simple_urlparse" and "d \<noteq> []"
    and "\<not> prefix ''http://'' d" "\<not> prefix ''https://'' d" "\<not> prefix ''//'' d"
    and "CHR ''/'' \<notin> set d"
    and "gethostbyname net (clock w) d = Gaierror"
  shows "verify_domain net (Some d) True True self w =
     (\<lparr>verified = False, vr_domain = Some d, dns_valid = False, dns_ip = None,
       http_responds = False, http_status = None, vr_server = None,
       error = Some ''DNS resolution failed''\<rparr>,
      self, w\<lparr>clock := Suc (clock w), trace := trace w @ [Resolve d]\<rparr>)"
proof -
  have g: "get_domain_from_url net (Some d) = Some d"
    using assms(1-6) simple_urlparse_plain [OF assms(3-6)]
    by (simp add: get_domain_from_url_def)
  show ?thesis
    unfolding verify_domain_clean [OF assms(2) g assms(2)]
    using assms(2,7) by (simp add: domain_has_dns_def do_resolve_def)
qed

lemma first_verified_unresolved:
  assumes "urlparse net = simple_urlparse" and "d \<noteq> []"
    and "\<not> prefix ''http://'' d" "\<not> prefix ''https://'' d" "\<not> prefix ''//'' d"
    and "CHR ''/'' \<notin> set d"
    and "gethostbyname net (clock w) d = Gaierror"
  shows "first_verified net (d # ds) self w =
     first_verified net ds self (w\<lparr>clock := clock w + 1, trace := trace w @ [Resolve d]\<rparr>)"
  by (simp add: verify_domain_unresolved [OF assms])

lemma first_verified_hit:
  "verified (fst (verify_domain net (Some d) True True self w)) \<Longrightarrow>
   first_verified net (d # d2 # ds) self w = first_verified net [d] self w"
  by (cases "verify_domain net (Some d) True True self w") auto

theorem guess_order_witness:
  "py_split (lower ''Joes Cafe'') \<noteq> []
   \<and> \<not> isl (verify_business hyphen_only_net ''Joes Cafe'' [] new_DomainVerifier world0)
   \<and> map_option vr_domain
        (fst (projr (verify_business hyphen_only_net ''Joes Cafe'' [] new_DomainVerifier world0)))
       = Some (Some ''joes-cafe.com'')
   \<and> trace (snd (snd (projr (verify_business hyphen_only_net ''Joes Cafe'' []
                               new_DomainVerifier world0))))
       = [Resolve ''joescafe.com'', Resolve ''joescafe.net'', Resolve ''joescafe.org'',
          Resolve ''joescafe.biz'', Resolve ''joes-cafe.com'', Head ''https://joes-cafe.com'']
   \<and> py_split (lower ''   '') = []
   \<and> verify_business dead_net ''   '' [] new_DomainVerifier world0 = Inl IndexError"
proof -
  let ?w4 = "\<lparr>clock = 4, trace = [Resolve ''joescafe.com'', Resolve ''joescafe.net'',
                 Resolve ''joescafe.org'', Resolve ''joescafe.biz'']\<rparr>"
  have w: "py_split (lower ''Joes Cafe'') \<noteq> []" by code_simp
  have p: "[replace_space [] (lower ''Joes Cafe''), replace_space ''-'' (lower ''Joes Cafe''),
            hd (py_split (lower ''Joes Cafe''))] = [''joescafe'', ''joes-cafe'', ''joes'']"
    by code_simp
  have c: "candidate_domains [''joescafe'', ''joes-cafe'', ''joes''] =
      [''joescafe.com'', ''joescafe.net'', ''joescafe.org'', ''joescafe.biz'',
       ''joes-cafe.com'', ''joes-cafe.net'', ''joes-cafe.org'', ''joes-cafe.biz'',
       ''joes.com'', ''joes.net'', ''joes.org'', ''joes.biz'']"
    by (simp add: candidate_domains_def TLDS_def)
  have u: "urlparse hyphen_only_net = simple_urlparse"
    and g: "\<And>c d. gethostbyname hyphen_only_net c d =
                 (if d = ''joes-cafe.com'' then Resolved ''203.0.113.7'' else Gaierror)"
    by (simp_all add: hyphen_only_net_def)
  have s: "map_option vr_domain
             (fst (first_verified hyphen_only_net [''joes-cafe.com''] new_DomainVerifier ?w4))
           = Some (Some ''joes-cafe.com'')"
    "trace (snd (snd (first_verified hyphen_only_net [''joes-cafe.com'']
                        new_DomainVerifier ?w4)))
       = [Resolve ''joescafe.com'', Resolve ''joescafe.net'', Resolve ''joescafe.org'',
          Resolve ''joescafe.biz'', Resolve ''joes-cafe.com'', Head ''https://joes-cafe.com'']"
    by code_simp+
  have v: "verified (fst (verify_domain hyphen_only_net (Some ''joes-cafe.com'') True True
                            new_DomainVerifier ?w4))"
    by code_simp
  have f1: "first_verified hyphen_only_net
      [''joescafe.com'', ''joescafe.net'', ''joescafe.org'', ''joescafe.biz'',
       ''joes-cafe.com'', ''joes-cafe.net'', ''joes-cafe.org'', ''joes-cafe.biz'',
       ''joes.com'', ''joes.net'', ''joes.org'', ''joes.biz''] new_DomainVerifier world0 =
     first_verified hyphen_only_net
      [''joes-cafe.com'', ''joes-cafe.net'', ''joes-cafe.org'', ''joes-cafe.biz'',
       ''joes.com'', ''joes.net'', ''joes.org'', ''joes.biz''] new_DomainVerifier ?w4"
    by (simp add: first_verified_unresolved [OF u] g world0_def eval_nat_numeral
          del: first_verified.simps(2))
  have f: "first_verified hyphen_only_net
      [''joescafe.com'', ''joescafe.net'', ''joescafe.org'', ''joescafe.biz'',
       ''joes-cafe.com'', ''joes-cafe.net'', ''joes-cafe.org'', ''joes-cafe.biz'',
       ''joes.com'', ''joes.net'', ''joes.org'', ''joes.biz''] new_DomainVerifier world0 =
     first_verified hyphen_only_net [''joes-cafe.com''] new_DomainVerifier ?w4"
    unfolding f1 by (rule first_verified_hit [OF v])
  have vb: "verify_business hyphen_only_net ''Joes Cafe'' [] new_DomainVerifier world0 =
      Inr (first_verified hyphen_only_net [''joes-cafe.com''] new_DomainVerifier ?w4)"
    using guess_order [of hyphen_only_net "[]" new_DomainVerifier world0 "[]" "[]" "[]"
        "''Joes Cafe''" "[]" undefined undefined undefined] w
    unfolding p c f by (simp del: first_verified.simps)
  have e: "py_split (lower ''   '') = []" by code_simp
  have ie: "verify_business dead_net ''   '' [] new_DomainVerifier world0 = Inl IndexError"
    using guess_order [of dead_net "[]" new_DomainVerifier world0 "[]" "[]" "[]"
        "''   ''" "[]" undefined undefined undefined] e
    by (simp del: first_verified.simps)
  show ?thesis
    unfolding vb using s w e ie by (simp del: first_verified.simps)
qed

text \<open>
  Claim C8, as stated, fails on its example: for Joe's Cafe without website, on a network
  where nothing resolves, the lookups made are \<open>joe'scafe.com\<close>, \<open>joe'scafe.net\<close>,
  \<open>joe'scafe.org\<close>, \<open>joe'scafe.biz\<close>, then \<open>joe's-cafe.com\<close> and so on; \<open>joescafe.com\<close> is
  never tried.
\<close>

theorem joes_cafe_counterexample:
  "trace (snd (snd (projr (verify_business dead_net ''Joe's Cafe'' [] new_DomainVerifier world0))))
     = [Resolve ''joe'scafe.com'', Resolve ''joe'scafe.net'', Resolve ''joe'scafe.org'',
        Resolve ''joe'scafe.biz'', Resolve ''joe's-cafe.com'', Resolve ''joe's-cafe.net'',
        Resolve ''joe's-cafe.org'', Resolve ''joe's-cafe.biz'', Resolve ''joe's.com'',
        Resolve ''joe's.net'', Resolve ''joe's.org'', Resolve ''joe's.biz'']
   \<and> Resolve ''joescafe.com''
       \<notin> set (trace (snd (snd (projr (verify_business dead_net ''Joe's Cafe'' []
                                        new_DomainVerifier world0)))))"
proof -
  have c: "candidate_domains [''joe'scafe'', ''joe's-cafe'', ''joe's''] =
      [''joe'scafe.com'', ''joe'scafe.net'', ''joe'scafe.org'', ''joe'scafe.biz'',
       ''joe's-cafe.com'', ''joe's-cafe.net'', ''joe's-cafe.org'', ''joe's-cafe.biz'',
       ''joe's.com'', ''joe's.net'', ''joe's.org'', ''joe's.biz'']"
    by (simp add: candidate_domains_def TLDS_def)
  have u: "urlparse dead_net = simple_urlparse"
    and g: "\<And>c d. gethostbyname dead_net c d = Gaierror"
    by (simp_all add: dead_net_def)
  have "verify_business dead_net ''Joe's Cafe'' [] new_DomainVerifier world0 =
     Inr (None, new_DomainVerifier,
          \<lparr>clock = 12,
           trace = [Resolve ''joe'scafe.com'', Resolve ''joe'scafe.net'', Resolve ''joe'scafe.org'',
        Resolve ''joe'scafe.biz'', Resolve ''joe's-cafe.com'', Resolve ''joe's-cafe.net'',
        Resolve ''joe's-cafe.org'', Resolve ''joe's-cafe.biz'', Resolve ''joe's.com'',
        Resolve ''joe's.net'', Resolve ''joe's.org'', Resolve ''joe's.biz'']\<rparr>)"
    by (simp add: verify_business_def joes_cafe_patterns pattern_loop_flat c first_verified_unresolved [OF u] g
          world0_def eval_nat_numeral del: first_verified.simps(2))
  then show ?thesis by simp
qed

section \<open>Properties of the tech fingerprinter\<close>

lemma detect_server_info_returns: "\<exists>result. detect_server_info web url = Inr result"
  by (simp add: detect_server_info_def try_except_def Let_def split: sum.splits)

lemma detect_wordpress_returns: "\<exists>result. detect_wordpress web url = Inr result"
  by (simp add: detect_wordpress_def split: prod.splits option.splits)

lemma detect_other_cms_returns: "\<exists>result. detect_other_cms web url = Inr result"
  by (simp add: detect_other_cms_def try_except_def Let_def split: sum.splits)

lemma detect_server_info_default:
  "head_headers web url = Inl e \<Longrightarrow> detect_server_info web url = Inr default_server_info"
  by (simp add: detect_server_info_def detect_server_info_body_def try_except_def)

lemma detect_wordpress_default:
  "get_text web url = Inl e \<Longrightarrow> detect_wordpress web url = Inr default_wordpress_info"
  by (simp add: detect_wordpress_def detect_wordpress_body_def)

lemma detect_other_cms_default:
  "get_text web url = Inl e \<Longrightarrow> detect_other_cms web url = Inr default_other_cms_info"
  by (simp add: detect_other_cms_def detect_other_cms_body_def try_except_def)

text \<open>
  Claim C9. No detector raises: for every web and URL, \<open>detect_server_info\<close>,
  \<open>detect_wordpress\<close> and \<open>detect_other_cms\<close> return a value, and so does their composition
  \<open>analyze_tech_stack\<close>. When the request of a detector raises, the detector returns its
  default structure (all \<open>None\<close>, \<open>False\<close> or empty); when both requests raise,
  \<open>analyze_tech_stack\<close> returns the three default structures with the time stamp.
\<close>

theorem detectors_never_raise:
  "(\<exists>result. detect_server_info web url = Inr result)
   \<and> (\<exists>result. detect_wordpress web url = Inr result)
   \<and> (\<exists>result. detect_other_cms web url = Inr result)
   \<and> (\<exists>tech_stack. analyze_tech_stack web url = Inr tech_stack)
   \<and> (isl (head_headers web url) \<longrightarrow>
        detect_server_info web url = Inr default_server_info)
   \<and> (isl (get_text web url) \<longrightarrow>
        detect_wordpress web url = Inr default_wordpress_info
        \<and> detect_other_cms web url = Inr default_other_cms_info)
   \<and> (isl (head_headers web url) \<and> isl (get_text web url) \<longrightarrow>
        analyze_tech_stack web url =
          Inr \<lparr>server = default_server_info, wordpress = default_wordpress_info,
               other_cms = default_other_cms_info, scan_timestamp = now_isoformat web\<rparr>)"
proof -
  obtain s where s: "detect_server_info web url = Inr s"
    using detect_server_info_returns by blast
  obtain wp where wp: "detect_wordpress web url = Inr wp"
    using detect_wordpress_returns by blast
  obtain cms where cms: "detect_other_cms web url = Inr cms"
    using detect_other_cms_returns by blast
  have a: "analyze_tech_stack web url =
      Inr \<lparr>server = s, wordpress = wp, other_cms = cms, scan_timestamp = now_isoformat web\<rparr>"
    by (simp add: analyze_tech_stack_def s wp cms)
  have h: "isl (head_headers web url) \<Longrightarrow> s = default_server_info"
    using s detect_server_info_default [of web url] by (auto simp: isl_def)
  have g: "isl (get_text web url) \<Longrightarrow> wp = default_wordpress_info \<and> cms = default_other_cms_info"
    using wp cms detect_wordpress_default [of web url] detect_other_cms_default [of web url]
    by (auto simp: isl_def)
  show ?thesis using s wp cms a h g by auto
qed

theorem detectors_never_raise_witness:
  "isl (head_headers unreachable_web ''https://example.com'')
   \<and> isl (get_text unreachable_web ''https://example.com'')
   \<and> analyze_tech_stack unreachable_web ''https://example.com'' = Inr default_stack
   \<and> detect_wordpress broken_scan_web ''https://example.com'' =
       Inr (default_wordpress_info\<lparr>wp_is_wordpress := True\<rparr>)"
proof -
  have h: "isl (head_headers unreachable_web ''https://example.com'')"
    and g: "isl (get_text unreachable_web ''https://example.com'')"
    by (simp_all add: unreachable_web_def)
  have d: "\<lparr>server = default_server_info, wordpress = default_wordpress_info,
            other_cms = default_other_cms_info,
            scan_timestamp = now_isoformat unreachable_web\<rparr> = default_stack"
    by (simp add: default_stack_def default_server_info_def default_wordpress_info_def
          default_other_cms_info_def unreachable_web_def)
  have b: "detect_wordpress broken_scan_web ''https://example.com'' =
       Inr (default_wordpress_info\<lparr>wp_is_wordpress := True\<rparr>)"
    by code_simp
  show ?thesis
    using detectors_never_raise [of unreachable_web "''https://example.com''"] h g d b
    by simp
qed

end
